theory Spec2Isabelle
  imports Complex_Main
begin

section \<open>Data model\<close>

text \<open>
  The game core of the bot (\<^verbatim>\<open>src/handlers/GameHandler.ts\<close>) keeps its state in
  four document collections and one in-memory cache.  Identifiers (guild, user, channel,
  document \<^verbatim>\<open>_id\<close>) are strings.  Scores, round numbers and experience
  points are JavaScript numbers that hold integers, so they are integers here; where the
  code adds to a score, the sum is rounded as a double is.
\<close>

type_synonym ident = string

text \<open>\<^verbatim>\<open>RoomLeaderboard\<close>: \<^verbatim>\<open>_id\<close> is the user id
  (\<^verbatim>\<open>RoomLeaderboard.findById(userId)\<close>), \<^verbatim>\<open>guildId\<close> the guild it
  belongs to.\<close>

record leaderboard =
  lb_id :: ident
  guildId :: ident
  score :: int

text \<open>\<^verbatim>\<open>Room\<close>: \<^verbatim>\<open>_id\<close> is the guild id.\<close>

record room =
  room_id :: ident
  answerers :: "ident list"
  channel :: ident
  startedBy :: ident
  currentRound :: int

record guild =
  guild_id :: ident
  rolling :: bool
  prefix :: string

record user =
  user_id :: ident
  xp :: int
  level :: int

record gameOptions =
  rounds :: int
  time :: int
  mode :: string

text \<open>A theme as the theme source hands it out (\<^verbatim>\<open>MioSong\<close>).\<close>

record theme =
  link :: string
  name :: string
  malId :: int

text \<open>What \<^verbatim>\<open>LevelHandler.handleLevelByMode\<close> returns.\<close>

record stats =
  stats_xp :: int
  stats_level :: int

text \<open>The texts the handler sends to the channel; \<^verbatim>\<open>t('...')\<close> keys and embeds
  are constructors.\<close>

datatype message =
    NoUsersInTheVoiceChannel
  | NoVoiceChannel
  | PreparingMatchEmbed
  | StartingNextRoundEmbed
  | RoundStartedEmbed int
  | TheAnswerIs
  | AnswerEmbed theme
  | Winners "ident list"
  | Congrats ident int
  | RoundEnded
  | LevelUp ident int

text \<open>What a rejected promise or a \<^verbatim>\<open>throw\<close> carries: \<^verbatim>\<open>new Error(text)\<close>,
  the \<^verbatim>\<open>TypeError\<close> of a property read on \<^verbatim>\<open>null\<close> or
  \<^verbatim>\<open>undefined\<close>, or the rejection of a collaborator's call.\<close>

datatype error =
    Error string
  | TypeError
  | Rejected string

text \<open>Calls to the chat and voice transport, in the order the handler makes them, and
  the error handed to \<^verbatim>\<open>handleError\<close>.\<close>

datatype event =
    CreateMessage message
  | LeaveVoiceChannel "ident option"
  | PlayTheme ident string
  | HandleError error

text \<open>
  The persisted collections, the handler's \<^verbatim>\<open>themesCache\<close> and the trace of
  transport calls.  \<^verbatim>\<open>leaderboards\<close> is a list in the collection's natural order,
  which is the order \<^verbatim>\<open>find\<close> returns and \<^verbatim>\<open>findOne\<close> searches.
\<close>

record world =
  rooms :: "ident \<rightharpoonup> room"
  leaderboards :: "leaderboard list"
  guilds :: "ident \<rightharpoonup> guild"
  users :: "ident \<rightharpoonup> user"
  themesCache :: "string \<rightharpoonup> ident"
  trace :: "event list"

definition emit :: "event \<Rightarrow> world \<Rightarrow> world" where
  "emit e w = w\<lparr>trace := trace w @ [e]\<rparr>"

section \<open>Storage operations\<close>

text \<open>
  The document store is a collaborator of the handler.  Its operations are the ones the
  handler calls: a lookup by \<^verbatim>\<open>_id\<close> returns the document or nothing
  (\<^verbatim>\<open>null\<close>), \<^verbatim>\<open>find\<close> returns the matching documents as an array,
  \<^verbatim>\<open>save\<close> writes a fetched document back under its \<^verbatim>\<open>_id\<close>, and
  \<^verbatim>\<open>deleteOne\<close> removes the document with that \<^verbatim>\<open>_id\<close> if there is one.
\<close>

definition RoomLeaderboard_findById :: "ident \<Rightarrow> world \<Rightarrow> leaderboard option" where
  "RoomLeaderboard_findById i w = find (\<lambda>b. lb_id b = i) (leaderboards w)"

definition RoomLeaderboard_find :: "ident \<Rightarrow> world \<Rightarrow> leaderboard list" where
  "RoomLeaderboard_find g w = filter (\<lambda>b. guildId b = g) (leaderboards w)"

definition RoomLeaderboard_save :: "leaderboard \<Rightarrow> world \<Rightarrow> world" where
  "RoomLeaderboard_save b w =
     w\<lparr>leaderboards := map (\<lambda>x. if lb_id x = lb_id b then b else x) (leaderboards w)\<rparr>"

definition RoomLeaderboard_deleteOne :: "leaderboard \<Rightarrow> world \<Rightarrow> world" where
  "RoomLeaderboard_deleteOne b w =
     w\<lparr>leaderboards := filter (\<lambda>x. lb_id x \<noteq> lb_id b) (leaderboards w)\<rparr>"

definition Guild_save :: "guild \<Rightarrow> world \<Rightarrow> world" where
  "Guild_save g w = w\<lparr>guilds := (guilds w)(guild_id g \<mapsto> g)\<rparr>"

definition Room_save :: "room \<Rightarrow> world \<Rightarrow> world" where
  "Room_save r w = w\<lparr>rooms := (rooms w)(room_id r \<mapsto> r)\<rparr>"

definition Room_deleteOne :: "room \<Rightarrow> world \<Rightarrow> world" where
  "Room_deleteOne r w = w\<lparr>rooms := (rooms w)(room_id r := None)\<rparr>"

definition User_save :: "user \<Rightarrow> world \<Rightarrow> world" where
  "User_save u w = w\<lparr>users := (users w)(user_id u \<mapsto> u)\<rparr>"

section \<open>Score bump\<close>

text \<open>
  A score is an integer-valued double, and \<^verbatim>\<open>a + b\<close> is the exact sum rounded to a
  nearest double, a tie going to the even significand.  Up to \<open>2 ^ 53\<close> in magnitude
  every integer is a double; beyond, neighbouring doubles are \<open>spacing\<close> apart, and
  \<open>2 ^ 53 + 1\<close> is rounded to \<open>2 ^ 53\<close>.
\<close>

fun spacing :: "nat \<Rightarrow> nat" where
  "spacing n = (if n < 2 ^ 53 then 1 else 2 * spacing (n div 2))"

declare spacing.simps [simp del]

definition to_double :: "int \<Rightarrow> int" where
  "to_double x =
     (if \<bar>x\<bar> \<le> 2 ^ 53 then x
      else
        let u = int (spacing (nat \<bar>x\<bar>)); q = x div u; r = x mod u
        in if 2 * r < u then q * u
           else if u < 2 * r then (q + 1) * u
           else if even q then q * u else (q + 1) * u)"

definition js_add :: "int \<Rightarrow> int \<Rightarrow> int" where
  "js_add a b = to_double (a + b)"

text \<open>
  \<^verbatim>\<open>
  async bumpScore(userId: string) {
    const leaderboard = await RoomLeaderboard.findById(userId)
    if (leaderboard) {
      leaderboard.score = leaderboard.score + 1
      await leaderboard.save()
    }
  }
  \<close>
  \<open>bumpScore_found\<close> is the method from the answer of its lookup on.  A call that is
  awaited, or runs alone, looks up and goes on in the same store.
\<close>

definition bumpScore_found :: "leaderboard option \<Rightarrow> world \<Rightarrow> world" where
  "bumpScore_found leaderboard w =
     (case leaderboard of
        Some lb \<Rightarrow> RoomLeaderboard_save (lb\<lparr>score := js_add (score lb) 1\<rparr>) w
      | None \<Rightarrow> w)"

definition bumpScore :: "ident \<Rightarrow> world \<Rightarrow> world" where
  "bumpScore userId w = bumpScore_found (RoomLeaderboard_findById userId w) w"

section \<open>The handler and its collaborators\<close>

text \<open>
  The fields of a \<^verbatim>\<open>GameHandler\<close> instance that the methods read: the ids of the
  triggering message, the bot's own user id (\<^verbatim>\<open>client.user.id\<close>) and the game
  options.  Two collaborators are outside these sources and therefore parameters: the
  level computation \<^verbatim>\<open>LevelHandler.handleLevelByMode\<close> (\<open>None\<close> when its promise
  rejects), and the room handling
  \<^verbatim>\<open>new RoomHandler(this.message, isSingleplayer).handleRoom()\<close>, which resolves with
  the room of the round or rejects, and may do to the store whatever it does.
\<close>

record handler =
  guildID :: ident
  channelID :: ident
  authorID :: ident
  botID :: ident
  options :: gameOptions
  handleLevelByMode :: "ident \<Rightarrow> string \<Rightarrow> world \<Rightarrow> stats option"
  handleRoom :: "bool \<Rightarrow> world \<Rightarrow> (error + room) \<times> world"

section \<open>Match winner\<close>

text \<open>
  \<^verbatim>\<open>Math.max(...scores)\<close> of an empty array is \<^verbatim>\<open>-Infinity\<close>, so the highest
  score is an integer or \<^verbatim>\<open>-Infinity\<close>.
\<close>

datatype number = NegInfinity | Finite int

fun Math_max :: "int list \<Rightarrow> number" where
  "Math_max [] = NegInfinity"
| "Math_max (x # xs) = (case Math_max xs of NegInfinity \<Rightarrow> Finite x | Finite m \<Rightarrow> Finite (max x m))"

text \<open>\<^verbatim>\<open>highestScore - 1\<close> and \<^verbatim>\<open>roundedHalfRounds > wonRounds\<close> on such numbers.\<close>

fun minus_one :: "number \<Rightarrow> number" where
  "minus_one NegInfinity = NegInfinity"
| "minus_one (Finite m) = Finite (m - 1)"

fun exceeds :: "int \<Rightarrow> number \<Rightarrow> bool" where
  "exceeds r NegInfinity = True"
| "exceeds r (Finite m) = (r > m)"

text \<open>\<^verbatim>\<open>Math.round\<close>: the nearest integer, a tie going to the larger one.\<close>

definition Math_round :: "rat \<Rightarrow> int" where
  "Math_round x = \<lfloor>x + 1 / 2\<rfloor>"

text \<open>What an \<^verbatim>\<open>async\<close> lookup hands back: \<^verbatim>\<open>false\<close>, \<^verbatim>\<open>null\<close> or a
  document; only a document is truthy.  An array is truthy even when empty.\<close>

datatype 'a js_value = JSFalse | JSNull | JSDoc 'a

fun truthy :: "'a js_value \<Rightarrow> bool" where
  "truthy JSFalse = False"
| "truthy JSNull = False"
| "truthy (JSDoc d) = True"

definition array_truthy :: "'a list \<Rightarrow> bool" where
  "array_truthy xs = True"

text \<open>\<^verbatim>\<open>RoomLeaderboard.findOne({ guildId, score: highestScore })\<close>: the first document
  of the guild with that score.\<close>

definition RoomLeaderboard_findOne :: "ident \<Rightarrow> number \<Rightarrow> world \<Rightarrow> leaderboard option" where
  "RoomLeaderboard_findOne g n w =
     find (\<lambda>b. guildId b = g \<and> Finite (score b) = n) (leaderboards w)"

text \<open>
  \<^verbatim>\<open>
  async getMatchWinner(isSinglePlayer: boolean) {
    const leaderboards = await RoomLeaderboard.find({ guildId: this.message.guildID })
    if (!leaderboards) return false
    const scores = leaderboards.map((user) => { return user.score })
    const highestScore = Math.max(...scores)
    if (isSinglePlayer) {
      const halfRounds = this.gameOptions.rounds / 2
      const roundedHalfRounds = Math.round(halfRounds)
      const wonRounds = highestScore - 1
      if (roundedHalfRounds > wonRounds) return false
    }
    const highestUser = await RoomLeaderboard.findOne({
      guildId: this.message.guildID, score: highestScore })
    return highestUser
  }
  \<close>
\<close>

definition getMatchWinner :: "handler \<Rightarrow> bool \<Rightarrow> world \<Rightarrow> leaderboard js_value" where
  "getMatchWinner h isSinglePlayer w =
     (let leaderboards = RoomLeaderboard_find (guildID h) w in
      if \<not> array_truthy leaderboards then JSFalse
      else
        let scores = map score leaderboards;
            highestScore = Math_max scores;
            halfRounds = rat_of_int (rounds (options h)) / 2;
            roundedHalfRounds = Math_round halfRounds;
            wonRounds = minus_one highestScore
        in if isSinglePlayer \<and> exceeds roundedHalfRounds wonRounds then JSFalse
           else (case RoomLeaderboard_findOne (guildID h) highestScore w of
                   None \<Rightarrow> JSNull
                 | Some highestUser \<Rightarrow> JSDoc highestUser))"

section \<open>Player-mode classification\<close>

text \<open>A guild channel: its numeric type (2 is a voice channel) and the members connected
  to it.  A member has an id and the flag that marks a bot account; the classification
  reads the id only.\<close>

record member =
  member_id :: ident
  bot :: bool

record guildChannel =
  ctype :: int
  voiceMembers :: "member list"

text \<open>
  \<^verbatim>\<open>
  isSinglePlayer(voiceChannel: AnyGuildChannel) {
    if (voiceChannel.type !== 2) throw new Error('Invalid Channel Type')
    const voiceChannelMembers = voiceChannel.voiceMembers.filter((member) => {
      return member.id !== this.client.user.id // Ignore the bot
    })
    if (voiceChannelMembers.length === 1) return true
    return false
  }
  \<close>
\<close>

definition isSinglePlayer :: "handler \<Rightarrow> guildChannel \<Rightarrow> error + bool" where
  "isSinglePlayer h voiceChannel =
     (if ctype voiceChannel \<noteq> 2 then Inl (Error ''Invalid Channel Type'')
      else
        let voiceChannelMembers = filter (\<lambda>m. member_id m \<noteq> botID h) (voiceMembers voiceChannel)
        in if length voiceChannelMembers = 1 then Inr True else Inr False)"

section \<open>Random element of an array\<close>

text \<open>
  JavaScript numbers are double-precision floating-point numbers: the rationals
  \<open>m * 2 ^ e\<close> with \<open>\<bar>m\<bar> < 2 ^ 53\<close> and \<open>- 1074 \<le> e \<le> 971\<close>.  The product of two
  of them is the exact product rounded to a nearest double.
\<close>

definition is_double :: "rat \<Rightarrow> bool" where
  "is_double x = (\<exists>m a b. \<bar>m\<bar> < 2 ^ 53 \<and> a \<le> 971 \<and> b \<le> 1074 \<and>
                     x = rat_of_int m * 2 ^ a / 2 ^ b)"

definition nearest_double :: "rat \<Rightarrow> rat \<Rightarrow> bool" where
  "nearest_double x p = (is_double p \<and> (\<forall>d. is_double d \<longrightarrow> \<bar>x - p\<bar> \<le> \<bar>x - d\<bar>))"

text \<open>
  \<^verbatim>\<open>array[i]\<close> is \<^verbatim>\<open>undefined\<close> (\<open>None\<close>) when \<open>i\<close> is not an index of
  the array.  \<^verbatim>\<open>Math.random()\<close> is the argument \<open>random\<close>, and the rounding of the
  product to a double is the argument \<open>fl\<close>.
  \<^verbatim>\<open>
  randomValueInArray<T extends unknown>(array: T[]): T {
    return array[Math.floor(Math.random() * array.length)]
  }
  \<close>
\<close>

definition js_index :: "'a list \<Rightarrow> int \<Rightarrow> 'a option" where
  "js_index array i = (if 0 \<le> i \<and> i < int (length array) then Some (array ! nat i) else None)"

definition randomValueInArray :: "(rat \<Rightarrow> rat) \<Rightarrow> rat \<Rightarrow> 'a list \<Rightarrow> 'a option" where
  "randomValueInArray fl random array =
     js_index array \<lfloor>fl (random * rat_of_nat (length array))\<rfloor>"

section \<open>Theme selection\<close>

text \<open>
  The theme source \<^verbatim>\<open>Themes.getThemeByMode\<close> is a collaborator: its behaviour is the
  sequence of its answers, the \<open>n\<close>-th call rejecting (\<open>Inl\<close>), finding no theme
  (\<open>Inr None\<close>) or returning one.  Entries of the cache never expire
  (\<^verbatim>\<open>new NodeCache()\<close> sets no time to live), so \<^verbatim>\<open>themesCache.get(k) !== undefined\<close>
  holds exactly for the keys that were set.  The function may recurse forever; not
  returning is the value \<open>None\<close>.
  \<^verbatim>\<open>
  async chooseTheme(): Promise<MioSong> {
    const themes = new Themes()
    const theme = await themes.getThemeByMode(this.gameOptions)
    if (!theme || this.themesCache.get(theme.link) !== undefined) {
      return await this.chooseTheme()
    } else {
      return theme
    }
  }
  \<close>
\<close>

partial_function (option) chooseTheme ::
  "(nat \<Rightarrow> error + theme option) \<Rightarrow> (string \<rightharpoonup> ident) \<Rightarrow> nat \<Rightarrow> (error + theme) option" where
  "chooseTheme getThemeByMode cache n =
     (case getThemeByMode n of
        Inl e \<Rightarrow> Some (Inl e)
      | Inr None \<Rightarrow> chooseTheme getThemeByMode cache (Suc n)
      | Inr (Some theme) \<Rightarrow>
          if cache (link theme) \<noteq> None then chooseTheme getThemeByMode cache (Suc n)
          else Some (Inr theme))"

text \<open>The answers on which \<^verbatim>\<open>chooseTheme\<close> calls itself again.\<close>

fun retried :: "(string \<rightharpoonup> ident) \<Rightarrow> error + theme option \<Rightarrow> bool" where
  "retried cache (Inl e) = False"
| "retried cache (Inr None) = True"
| "retried cache (Inr (Some theme)) = (cache (link theme) \<noteq> None)"

text \<open>What \<^verbatim>\<open>chooseTheme\<close> returns on an answer it does not retry: the rejection or
  the theme.\<close>

fun settled :: "error + theme option \<Rightarrow> (error + theme) option" where
  "settled (Inl e) = Some (Inl e)"
| "settled (Inr None) = None"
| "settled (Inr (Some theme)) = Some (Inr theme)"

text \<open>
  Modelled from the spec: the theme handler of \<^verbatim>\<open>GameHandler\<close>
  (\<^verbatim>\<open>new Themes(message, gameOptions, themesCache).getTheme()\<close>) is not among the
  sources.  The spec has the selector record the reference of an accepted theme in the
  theme cache; the earlier \<^verbatim>\<open>Game\<close> handler does so, and the definition follows
  it, with the outcome of the choice (a rejection or the chosen theme) as an argument:
  \<^verbatim>\<open>
  async getTheme() {
    ...
    const choosedTheme = await this.chooseTheme()
    this.themesCache.set(choosedTheme.link, this.message.guildID)
    ...
    return choosedTheme
  }
  \<close>
\<close>

definition getTheme :: "handler \<Rightarrow> error + theme \<Rightarrow> world \<Rightarrow> (error + theme) \<times> world" where
  "getTheme h chosen w =
     (case chosen of
        Inl e \<Rightarrow> (Inl e, w)
      | Inr choosedTheme \<Rightarrow>
          (Inr choosedTheme,
           w\<lparr>themesCache := (themesCache w)(link choosedTheme \<mapsto> guildID h)\<rparr>))"

section \<open>Levels, match end and clean-up\<close>

text \<open>
  \<^verbatim>\<open>
  async handleLevel(userId: string) {
    const user = await User.findById(userId)
    const levelHandler = new LevelHandler()
    const stats = await levelHandler.handleLevelByMode(userId, this.gameOptions.mode)
    user.xp = user.xp + stats.xp
    if (stats.level !== user.level) {
      void this.message.channel.createMessage(`Congratulations ... level up ...`)
    }
    await user.save()
  }
  \<close>
  \<open>handleLevel_found\<close> is the method from the answer of its lookup on.  When the user's
  profile is missing, the read of \<^verbatim>\<open>user.xp\<close> rejects the promise and nothing is
  written; no caller awaits or catches it.
\<close>

definition handleLevel_found :: "handler \<Rightarrow> ident \<Rightarrow> user option \<Rightarrow> world \<Rightarrow> world" where
  "handleLevel_found h userId user w =
     (case handleLevelByMode h userId (mode (options h)) w of
        None \<Rightarrow> w
      | Some stats \<Rightarrow>
          (case user of
             None \<Rightarrow> w
           | Some user \<Rightarrow>
               let user' = user\<lparr>xp := xp user + stats_xp stats\<rparr>;
                   w' = (if stats_level stats \<noteq> level user
                         then emit (CreateMessage (LevelUp userId (stats_level stats))) w
                         else w)
               in User_save user' w'))"

definition handleLevel :: "handler \<Rightarrow> ident \<Rightarrow> world \<Rightarrow> world" where
  "handleLevel h userId w = handleLevel_found h userId (users w userId) w"

text \<open>
  \<^verbatim>\<open>
  async handleFinish(room, voiceChannelID: string, isSinglePlayer: boolean, force: boolean) {
    if (!force) {
      const matchWinner = await this.getMatchWinner(isSinglePlayer)
      if (matchWinner) {
        const winnerUser = await User.findById(matchWinner._id)
        const levelHandler = new LevelHandler()
        const newStats = await levelHandler.handleLevelByMode(
          winnerUser._id, this.gameOptions.mode)
        void this.message.channel.createMessage(
          `Congrats <@${winnerUser._id}>! You won the match! ${newStats.xp} XP`)
      }
    }
    this.client.leaveVoiceChannel(voiceChannelID)
  }
  \<close>
  The result is \<open>Inl\<close> when the method throws: on the read of \<^verbatim>\<open>winnerUser._id\<close>
  when the winner has no profile, or when the level computation rejects.
\<close>

definition handleFinish ::
  "handler \<Rightarrow> room \<Rightarrow> ident \<Rightarrow> bool \<Rightarrow> bool \<Rightarrow> world \<Rightarrow> (error + unit) \<times> world" where
  "handleFinish h room voiceChannelID isSingleplayer force w =
     (if \<not> force then
        (case getMatchWinner h isSingleplayer w of
           JSDoc matchWinner \<Rightarrow>
             (case users w (lb_id matchWinner) of
                None \<Rightarrow> (Inl TypeError, w)
              | Some winnerUser \<Rightarrow>
                  (case handleLevelByMode h (user_id winnerUser) (mode (options h)) w of
                     None \<Rightarrow> (Inl (Rejected ''handleLevelByMode''), w)
                   | Some newStats \<Rightarrow>
                       (Inr (),
                        emit (LeaveVoiceChannel (Some voiceChannelID))
                          (emit (CreateMessage (Congrats (user_id winnerUser) (stats_xp newStats))) w))))
         | JSFalse \<Rightarrow> (Inr (), emit (LeaveVoiceChannel (Some voiceChannelID)) w)
         | JSNull \<Rightarrow> (Inr (), emit (LeaveVoiceChannel (Some voiceChannelID)) w))
      else (Inr (), emit (LeaveVoiceChannel (Some voiceChannelID)) w))"

text \<open>
  \<^verbatim>\<open>getMatchWinner\<close> and the unforced \<^verbatim>\<open>handleFinish\<close> from the answer of
  \<^verbatim>\<open>RoomLeaderboard.find\<close> on: the array \<open>found\<close> is what the lookup has
  returned, \<open>w\<close> the store in which the method goes on.
\<close>

definition getMatchWinner_found ::
  "handler \<Rightarrow> bool \<Rightarrow> leaderboard list \<Rightarrow> world \<Rightarrow> leaderboard js_value" where
  "getMatchWinner_found h isSingleplayer found w =
     (if \<not> array_truthy found then JSFalse
      else
        let scores = map score found;
            highestScore = Math_max scores;
            halfRounds = rat_of_int (rounds (options h)) / 2;
            roundedHalfRounds = Math_round halfRounds;
            wonRounds = minus_one highestScore
        in if isSingleplayer \<and> exceeds roundedHalfRounds wonRounds then JSFalse
           else (case RoomLeaderboard_findOne (guildID h) highestScore w of
                   None \<Rightarrow> JSNull
                 | Some highestUser \<Rightarrow> JSDoc highestUser))"

definition handleFinish_found ::
  "handler \<Rightarrow> room \<Rightarrow> ident \<Rightarrow> bool \<Rightarrow> leaderboard list \<Rightarrow> world \<Rightarrow> (error + unit) \<times> world" where
  "handleFinish_found h room voiceChannelID isSingleplayer found w =
     (case getMatchWinner_found h isSingleplayer found w of
        JSDoc matchWinner \<Rightarrow>
          (case users w (lb_id matchWinner) of
             None \<Rightarrow> (Inl TypeError, w)
           | Some winnerUser \<Rightarrow>
               (case handleLevelByMode h (user_id winnerUser) (mode (options h)) w of
                  None \<Rightarrow> (Inl (Rejected ''handleLevelByMode''), w)
                | Some newStats \<Rightarrow>
                    (Inr (),
                     emit (LeaveVoiceChannel (Some voiceChannelID))
                       (emit (CreateMessage (Congrats (user_id winnerUser) (stats_xp newStats))) w))))
      | JSFalse \<Rightarrow> (Inr (), emit (LeaveVoiceChannel (Some voiceChannelID)) w)
      | JSNull \<Rightarrow> (Inr (), emit (LeaveVoiceChannel (Some voiceChannelID)) w))"

text \<open>
  \<^verbatim>\<open>
  async clearData(room: RoomDocument, guild: GuildDocument) {
    const leaderboards = await RoomLeaderboard.find({ guildId: this.message.guildID })
    this.themesCache.del(this.themesCache.keys())
    guild.rolling = false
    leaderboards.map(async (board) => { await board.deleteOne() })
    await guild.save()
    await room.deleteOne()
  }
  \<close>
\<close>

definition clearData :: "handler \<Rightarrow> room \<Rightarrow> guild \<Rightarrow> world \<Rightarrow> world" where
  "clearData h room guild w =
     (let leaderboards = RoomLeaderboard_find (guildID h) w;
          w1 = w\<lparr>themesCache := Map.empty\<rparr>;
          guild' = guild\<lparr>rolling := False\<rparr>;
          w2 = fold RoomLeaderboard_deleteOne leaderboards w1;
          w3 = Guild_save guild' w2
      in Room_deleteOne room w3)"

section \<open>Starting and resolving a round\<close>

text \<open>
  What one call of \<^verbatim>\<open>startNewRound\<close> reads from outside the store: the requester's
  voice channel id (\<^verbatim>\<open>message.member.voiceState.channelID\<close>), the channel the
  client's cache has under that id, and the outcomes of the awaited calls: the choice of
  a theme within \<^verbatim>\<open>themes.getTheme()\<close>, \<^verbatim>\<open>getStreamFromURL(theme.link)\<close>
  (\<open>None\<close> when it rejects) and \<^verbatim>\<open>getAnimeData(...)\<close>.
\<close>

record round_io =
  io_voiceChannelID :: "ident option"
  io_voiceChannel :: "guildChannel option"
  io_theme :: "error + theme"
  io_stream :: "string option"
  io_animeData :: "error + unit"

text \<open>What the callbacks of an open round hold on to.\<close>

record round =
  rd_room :: room
  rd_guild :: guild
  rd_theme :: theme
  rd_voiceChannelID :: ident
  rd_isSingleplayer :: bool

text \<open>\<^verbatim>\<open>startNewRound\<close> either returns after a message, or leaves a round open.\<close>

datatype started = Returned | RoundActive round

text \<open>
  \<^verbatim>\<open>
  async startNewRound(guild: GuildDocument) {
    const voiceChannelID = this.message.member.voiceState.channelID
    if (!voiceChannelID) {
      const oldRoomExists = await Rooms.exists({ _id: this.message.guildID })
      if (oldRoomExists) {
        this.client.leaveVoiceChannel(voiceChannelID)
        return this.message.channel.createMessage(this.t('game:errors.noUsersInTheVoiceChannel'))
      }
      return this.message.channel.createMessage(this.t('game:errors.noVoiceChannel'))
    }
    const discordGuild = this.client.guilds.get(this.message.guildID)
    const voiceChannel = discordGuild.channels.get(voiceChannelID)
    const isSingleplayer = this.isSinglePlayer(voiceChannel)
    const roomHandler = new RoomHandler(this.message, isSingleplayer)
    const room = await roomHandler.handleRoom()
    ...
    if (room.currentRound === 1) { ... preparingMatch() ... } else { ... startingNextRound() ... }
    const themes = new Themes(this.message, this.gameOptions, this.themesCache)
    const theme = await themes.getTheme()
    const stream = await getStreamFromURL(theme.link).catch(() => {
      throw new Error(this.t('game:errors.unableToLoadStream'))
    })
    const user = await User.findById(this.message.author.id)
    const animeData = await getAnimeData(theme.name, theme.malId)
    const hintsHandler = new HintsHandler(animeData, this.t)
    guild.rolling = true
    await guild.save()
    const roundStartedEmbed = gameEmbedFactory.roundStarted(room.currentRound)
    void this.message.channel.createMessage({ embed: roundStartedEmbed })
    ... the two collectors and their callbacks ...
    void this.playTheme(voiceChannelID, stream)
  }
  \<close>
  The result is \<open>Inl\<close> when the promise rejects; the store is returned in every case,
  as it is at that moment.
\<close>

definition startNewRound ::
  "handler \<Rightarrow> guild \<Rightarrow> round_io \<Rightarrow> world \<Rightarrow> (error + started) \<times> world" where
  "startNewRound h guild io w =
     (case io_voiceChannelID io of
        None \<Rightarrow>
          (if rooms w (guildID h) \<noteq> None
           then (Inr Returned,
                 emit (CreateMessage NoUsersInTheVoiceChannel) (emit (LeaveVoiceChannel None) w))
           else (Inr Returned, emit (CreateMessage NoVoiceChannel) w))
      | Some voiceChannelID \<Rightarrow>
      (case io_voiceChannel io of
        None \<Rightarrow> (Inl TypeError, w)
      | Some voiceChannel \<Rightarrow>
      (case isSinglePlayer h voiceChannel of
        Inl e \<Rightarrow> (Inl e, w)
      | Inr isSingleplayer \<Rightarrow>
      (case handleRoom h isSingleplayer w of
        (Inl e, w1) \<Rightarrow> (Inl e, w1)
      | (Inr room, w1) \<Rightarrow>
        let w2 = emit (CreateMessage (if currentRound room = 1 then PreparingMatchEmbed
                                      else StartingNextRoundEmbed)) w1
        in
      (case getTheme h (io_theme io) w2 of
        (Inl e, w3) \<Rightarrow> (Inl e, w3)
      | (Inr theme, w3) \<Rightarrow>
      (case io_stream io of
        None \<Rightarrow> (Inl (Error ''game:errors.unableToLoadStream''), w3)
      | Some stream \<Rightarrow>
      (case io_animeData io of
        Inl e \<Rightarrow> (Inl e, w3)
      | Inr animeData \<Rightarrow>
          let guild' = guild\<lparr>rolling := True\<rparr>;
              w4 = Guild_save guild' w3;
              w5 = emit (CreateMessage (RoundStartedEmbed (currentRound room))) w4;
              w6 = emit (PlayTheme voiceChannelID stream) w5
          in (Inr (RoundActive
                \<lparr>rd_room = room, rd_guild = guild', rd_theme = theme,
                 rd_voiceChannelID = voiceChannelID, rd_isSingleplayer = isSingleplayer\<rparr>),
              w6))))))))"


text \<open>
  The callback of the answer collector's \<^verbatim>\<open>end\<close> event.  The room it reads is the
  document the round holds, with the answerers collected during the round.  The callback
  ends by starting the next round (\<open>StartNewRound\<close>, with the guild document it passes
  on) or not (\<open>Done\<close>); it is \<open>Inl\<close> when an awaited call throws.
  \<^verbatim>\<open>
  answerCollector.on('end', (_, stopReason) => void (async () => {
    if (stopReason === 'forceFinished') {
      await this.handleFinish(room, voiceChannelID, isSingleplayer, true)
      await this.clearData(room, guild)
      return
    }
    const answerers = room.answerers.length > 0
      ? room.answerers.map((id) => `<@${id}>`).join(', ') : this.t('utils:nobody')
    const answerEmbed = await gameEmbedFactory.answerEmbed(theme, animeData)
    await this.message.channel.createMessage('The answer is...')
    await this.message.channel.createMessage({ embed: answerEmbed })
    await this.message.channel.createMessage(this.t('game:winners', { users: answerers }))
    room.answerers.forEach((id) => {
      void this.bumpScore(id)
      void this.handleLevel(id)
    })
    if (room.currentRound >= this.gameOptions.rounds) {
      await this.handleFinish(room, voiceChannelID, isSingleplayer, false)
      await this.clearData(room, guild)
      void this.message.channel.createMessage(this.t('game:roundEnded'))
    } else {
      void this.startNewRound(guild).catch((err) => { handleError(this.message, this.t, err) })
    }
  })())
  \<close>
  The calls inside \<^verbatim>\<open>forEach\<close> are not awaited.  Each runs to its first
  \<^verbatim>\<open>await\<close> at once, which issues its lookup, and goes on when the lookup has
  answered.  The store answers in the order it is asked, so the lookups of all these
  calls, and the \<^verbatim>\<open>find\<close> that \<^verbatim>\<open>getMatchWinner\<close> issues in the same turn,
  read the store as it is after the three messages; the saves of the bumped scores take
  effect next; \<^verbatim>\<open>findOne\<close> and all that follows read the store after these
  saves.  The level computation is taken to answer at once, and the round start that the
  callback issues to run after these calls.
\<close>

datatype continuation = Done | StartNewRound guild

text \<open>The reveal and the announcement of the answerers.\<close>

definition reveal :: "round \<Rightarrow> world \<Rightarrow> world" where
  "reveal rd w =
     (let w1 = emit (CreateMessage TheAnswerIs) w;
          w2 = emit (CreateMessage (AnswerEmbed (rd_theme rd))) w1
      in emit (CreateMessage (Winners (answerers (rd_room rd)))) w2)"

text \<open>The calls of \<^verbatim>\<open>forEach\<close>: every lookup reads the store \<open>w\<close>, and the
  remainders of the calls run one after the other.\<close>

definition answered :: "handler \<Rightarrow> round \<Rightarrow> world \<Rightarrow> world" where
  "answered h rd w =
     fold (\<lambda>id w'. handleLevel_found h id (users w id)
                     (bumpScore_found (RoomLeaderboard_findById id w) w'))
       (answerers (rd_room rd)) w"

definition onEnd :: "handler \<Rightarrow> round \<Rightarrow> string \<Rightarrow> world \<Rightarrow> (error + continuation) \<times> world" where
  "onEnd h rd stopReason w =
     (let room = rd_room rd; guild = rd_guild rd;
          voiceChannelID = rd_voiceChannelID rd; isSingleplayer = rd_isSingleplayer rd
      in if stopReason = ''forceFinished'' then
           (case handleFinish h room voiceChannelID isSingleplayer True w of
              (Inl e, w1) \<Rightarrow> (Inl e, w1)
            | (Inr u, w1) \<Rightarrow> (Inr Done, clearData h room guild w1))
         else
           let w1 = reveal rd w;
               w2 = answered h rd w1
           in if currentRound room \<ge> rounds (options h) then
                let leaderboards = RoomLeaderboard_find (guildID h) w1
                in (case handleFinish_found h room voiceChannelID isSingleplayer leaderboards w2 of
                      (Inl e, w3) \<Rightarrow> (Inl e, w3)
                    | (Inr u, w3) \<Rightarrow>
                        (Inr Done, emit (CreateMessage RoundEnded) (clearData h room guild w3)))
              else (Inr (StartNewRound guild), w2))"

text \<open>The winner computation as the callback of a last round runs it.\<close>

definition finalWinner :: "handler \<Rightarrow> round \<Rightarrow> world \<Rightarrow> leaderboard js_value" where
  "finalWinner h rd w =
     getMatchWinner_found h (rd_isSingleplayer rd)
       (RoomLeaderboard_find (guildID h) (reveal rd w)) (answered h rd (reveal rd w))"


section \<open>Concrete stores and handlers\<close>

text \<open>An empty store, one where user \<open>u1\<close> has a leaderboard entry of guild
  \<open>g1\<close> with score 1, and one where that score is \<open>2 ^ 53\<close>.\<close>

definition world0 :: world where
  "world0 = \<lparr>rooms = Map.empty, leaderboards = [], guilds = Map.empty, users = Map.empty,
     themesCache = Map.empty, trace = []\<rparr>"

definition entry1 :: leaderboard where
  "entry1 = \<lparr>lb_id = ''u1'', guildId = ''g1'', score = 1\<rparr>"

definition world1 :: world where
  "world1 = world0\<lparr>leaderboards := [entry1]\<rparr>"

definition entryMax :: leaderboard where
  "entryMax = \<lparr>lb_id = ''u1'', guildId = ''g1'', score = 2 ^ 53\<rparr>"

definition worldMax :: world where
  "worldMax = world0\<lparr>leaderboards := [entryMax]\<rparr>"

text \<open>
  Two room handlers.  The first stores the room when it is called, the way
  \<^verbatim>\<open>handleRoom\<close> of the earlier \<^verbatim>\<open>Game\<close> handler does: it creates the room of the
  guild at round 1, or saves the stored one with \<^verbatim>\<open>currentRound\<close> incremented and the
  answerers reset.  The second resolves with the same room and leaves the store as it is.
\<close>

definition storingRoomHandler ::
  "ident \<Rightarrow> ident \<Rightarrow> ident \<Rightarrow> bool \<Rightarrow> world \<Rightarrow> (error + room) \<times> world" where
  "storingRoomHandler gid cid uid isSingleplayer w =
     (case rooms w gid of
        None \<Rightarrow>
          let newRoom = \<lparr>room_id = gid, answerers = [], channel = cid, startedBy = uid,
                           currentRound = 1\<rparr>
          in (Inr newRoom, Room_save newRoom w)
      | Some oldRoom \<Rightarrow>
          let oldRoom' = oldRoom\<lparr>currentRound := currentRound oldRoom + 1, answerers := []\<rparr>
          in (Inr oldRoom', Room_save oldRoom' w))"


text \<open>A handler of guild \<open>g1\<close> configured for ten rounds, and stores where the only
  entry of the guild has score 6, or 5, and one with two entries of scores 4 and 7.\<close>

definition handler10 :: handler where
  "handler10 = \<lparr>guildID = ''g1'', channelID = ''c1'', authorID = ''u1'', botID = ''bot'',
     options = \<lparr>rounds = 10, time = 30000, mode = ''normal''\<rparr>,
     handleLevelByMode = (\<lambda>u m w. Some \<lparr>stats_xp = 10, stats_level = 1\<rparr>),
     handleRoom = storingRoomHandler ''g1'' ''c1'' ''u1''\<rparr>"

definition entry6 :: leaderboard where
  "entry6 = \<lparr>lb_id = ''u1'', guildId = ''g1'', score = 6\<rparr>"

definition entry5 :: leaderboard where
  "entry5 = \<lparr>lb_id = ''u1'', guildId = ''g1'', score = 5\<rparr>"

definition entry4 :: leaderboard where
  "entry4 = \<lparr>lb_id = ''u1'', guildId = ''g1'', score = 4\<rparr>"

definition entry7 :: leaderboard where
  "entry7 = \<lparr>lb_id = ''u2'', guildId = ''g1'', score = 7\<rparr>"

definition world6 :: world where
  "world6 = world0\<lparr>leaderboards := [entry6]\<rparr>"

definition world5 :: world where
  "world5 = world0\<lparr>leaderboards := [entry5]\<rparr>"

definition world47 :: world where
  "world47 = world0\<lparr>leaderboards := [entry4, entry7]\<rparr>"

text \<open>A text channel, a voice channel with the bot and one other member, a voice
  channel with the bot and two other members, and a voice channel with the bot, one
  person and another bot account.\<close>

definition textChannel :: guildChannel where
  "textChannel = \<lparr>ctype = 0, voiceMembers = []\<rparr>"

definition soloChannel :: guildChannel where
  "soloChannel = \<lparr>ctype = 2,
     voiceMembers = [\<lparr>member_id = ''bot'', bot = True\<rparr>, \<lparr>member_id = ''u1'', bot = False\<rparr>]\<rparr>"

definition duoChannel :: guildChannel where
  "duoChannel = \<lparr>ctype = 2,
     voiceMembers = [\<lparr>member_id = ''u1'', bot = False\<rparr>, \<lparr>member_id = ''bot'', bot = True\<rparr>,
                     \<lparr>member_id = ''u2'', bot = False\<rparr>]\<rparr>"

definition botsChannel :: guildChannel where
  "botsChannel = \<lparr>ctype = 2,
     voiceMembers = [\<lparr>member_id = ''bot'', bot = True\<rparr>, \<lparr>member_id = ''u1'', bot = False\<rparr>,
                     \<lparr>member_id = ''musicbot'', bot = True\<rparr>]\<rparr>"

text \<open>Two themes, a cache that holds the first, a theme source that returns the first
  theme on every call, and one that returns it twice and the second theme from then on.\<close>

definition theme0 :: theme where
  "theme0 = \<lparr>link = ''https://themes/0.webm'', name = ''Anime 0'', malId = 100\<rparr>"

definition theme1 :: theme where
  "theme1 = \<lparr>link = ''https://themes/1.webm'', name = ''Anime 1'', malId = 101\<rparr>"

definition cache0 :: "string \<rightharpoonup> ident" where
  "cache0 = [link theme0 \<mapsto> ''g1'']"

definition sameTheme :: "nat \<Rightarrow> error + theme option" where
  "sameTheme n = Inr (Some theme0)"

definition freshAfterTwo :: "nat \<Rightarrow> error + theme option" where
  "freshAfterTwo n = (if n < 2 then Inr (Some theme0) else Inr (Some theme1))"

text \<open>
  Guild \<open>g1\<close> with its two players, a handler of that guild configured for three
  rounds, and the round that is open when round 3, or round 2, is being played: user
  \<open>u2\<close> has answered, the guild is rolling, the scores are 4 and 7.
\<close>

definition guild1 :: guild where
  "guild1 = \<lparr>guild_id = ''g1'', rolling = False, prefix = ''r!''\<rparr>"

definition user1 :: user where
  "user1 = \<lparr>user_id = ''u1'', xp = 0, level = 1\<rparr>"

definition user2 :: user where
  "user2 = \<lparr>user_id = ''u2'', xp = 0, level = 1\<rparr>"

definition handler3 :: handler where
  "handler3 = handler10\<lparr>options := \<lparr>rounds = 3, time = 30000, mode = ''normal''\<rparr>\<rparr>"

definition room3 :: room where
  "room3 = \<lparr>room_id = ''g1'', answerers = [''u2''], channel = ''c1'', startedBy = ''u1'',
     currentRound = 3\<rparr>"

definition room2 :: room where
  "room2 = room3\<lparr>currentRound := 2\<rparr>"

definition round3 :: round where
  "round3 = \<lparr>rd_room = room3, rd_guild = guild1\<lparr>rolling := True\<rparr>, rd_theme = theme1,
     rd_voiceChannelID = ''vc1'', rd_isSingleplayer = False\<rparr>"

definition round2 :: round where
  "round2 = round3\<lparr>rd_room := room2\<rparr>"

definition worldR3 :: world where
  "worldR3 = world47\<lparr>rooms := [''g1'' \<mapsto> room3],
     guilds := [''g1'' \<mapsto> guild1\<lparr>rolling := True\<rparr>],
     users := [''u1'' \<mapsto> user1, ''u2'' \<mapsto> user2]\<rparr>"

definition worldR2 :: world where
  "worldR2 = worldR3\<lparr>rooms := [''g1'' \<mapsto> room2]\<rparr>"

text \<open>
  The same last round when user \<open>u1\<close> has answered instead, and that round in a store
  where the holder of the highest score, user \<open>u2\<close>, has no profile.
\<close>

definition room3a :: room where
  "room3a = room3\<lparr>answerers := [''u1'']\<rparr>"

definition round3a :: round where
  "round3a = round3\<lparr>rd_room := room3a\<rparr>"

definition worldR3a :: world where
  "worldR3a = worldR3\<lparr>rooms := [''g1'' \<mapsto> room3a]\<rparr>"

definition worldNoProfile :: world where
  "worldNoProfile = worldR3a\<lparr>users := [''u1'' \<mapsto> user1]\<rparr>"


definition ioStreamFails :: round_io where
  "ioStreamFails = \<lparr>io_voiceChannelID = Some ''vc1'', io_voiceChannel = Some duoChannel,
     io_theme = Inr theme1, io_stream = None, io_animeData = Inr ()\<rparr>"

definition ioReady :: round_io where
  "ioReady = ioStreamFails\<lparr>io_stream := Some ''stream1''\<rparr>"

definition ioNoVoice :: round_io where
  "ioNoVoice = ioStreamFails\<lparr>io_voiceChannelID := None, io_voiceChannel := None\<rparr>"


section \<open>Score bump: properties\<close>

lemma js_add_exact: "\<bar>a + b\<bar> \<le> 2 ^ 53 \<Longrightarrow> js_add a b = a + b"
  by (simp add: js_add_def to_double_def)

lemma spacing_small: "n < 2 ^ 53 \<Longrightarrow> spacing n = 1"
  by (subst spacing.simps) simp

lemma spacing_above: "spacing (2 ^ 53 + 1) = 2"
proof -
  have "spacing (2 ^ 53 + 1) = 2 * spacing ((2 ^ 53 + 1) div 2)"
    by (subst spacing.simps) simp
  also have "((2::nat) ^ 53 + 1) div 2 = 2 ^ 52"
    by simp
  also have "spacing (2 ^ 52) = 1"
    by (rule spacing_small) simp
  finally show ?thesis by simp
qed

lemma js_add_saturates: "js_add (2 ^ 53) 1 = 2 ^ 53"
proof -
  have n: "nat \<bar>(2::int) ^ 53 + 1\<bar> = 2 ^ 53 + 1"
    by simp
  have u: "int (spacing (nat \<bar>(2::int) ^ 53 + 1\<bar>)) = 2"
    by (simp only: n spacing_above)
  have "to_double (2 ^ 53 + 1) = 2 ^ 53"
    unfolding to_double_def Let_def u by simp
  then show ?thesis by (simp only: js_add_def)
qed

lemma find_lb_id: "find (\<lambda>b. lb_id b = i) xs = Some e \<Longrightarrow> lb_id e = i"
  by (induction xs) (auto split: if_splits)

lemma find_map_replace:
  "find (\<lambda>b. lb_id b = i) xs = Some e \<Longrightarrow> lb_id b' = i \<Longrightarrow>
   find (\<lambda>b. lb_id b = i) (map (\<lambda>x. if lb_id x = lb_id b' then b' else x) xs) = Some b'"
  by (induction xs) (auto split: if_splits)

lemma bumpScore_absent: "RoomLeaderboard_findById u w = None \<Longrightarrow> bumpScore u w = w"
  by (simp add: bumpScore_def bumpScore_found_def)

lemma bumpScore_existing:
  assumes "RoomLeaderboard_findById u w = Some e"
  shows "RoomLeaderboard_findById u (bumpScore u w) = Some (e\<lparr>score := js_add (score e) 1\<rparr>)"
proof -
  from assms have f: "find (\<lambda>b. lb_id b = u) (leaderboards w) = Some e"
    by (simp add: RoomLeaderboard_findById_def)
  then have i: "lb_id (e\<lparr>score := js_add (score e) 1\<rparr>) = u"
    using find_lb_id [OF f] by simp
  from find_map_replace [OF f i] assms show ?thesis
    by (simp add: bumpScore_def bumpScore_found_def RoomLeaderboard_findById_def
        RoomLeaderboard_save_def)
qed

lemma map_replace_ids:
  "lb_id b = lb_id e \<Longrightarrow>
   map lb_id (map (\<lambda>x. if lb_id x = lb_id e then b else x) xs) = map lb_id xs"
  by (induction xs) auto

lemma bumpScore_ids: "map lb_id (leaderboards (bumpScore u w)) = map lb_id (leaderboards w)"
proof (cases "RoomLeaderboard_findById u w")
  case None
  then show ?thesis by (simp add: bumpScore_def bumpScore_found_def)
next
  case (Some e)
  have "map lb_id (map (\<lambda>x. if lb_id x = lb_id (e\<lparr>score := js_add (score e) 1\<rparr>)
          then e\<lparr>score := js_add (score e) 1\<rparr> else x) (leaderboards w)) = map lb_id (leaderboards w)"
    by (rule map_replace_ids) simp
  with Some show ?thesis
    by (simp add: bumpScore_def bumpScore_found_def RoomLeaderboard_save_def)
qed

lemma bumpScore_iter:
  assumes "RoomLeaderboard_findById u w = Some e"
    and "- (2 ^ 53) \<le> score e" and "score e + int k \<le> 2 ^ 53"
  shows "RoomLeaderboard_findById u ((bumpScore u ^^ k) w) = Some (e\<lparr>score := score e + int k\<rparr>)"
  using assms(3)
proof (induction k)
  case 0
  with assms(1) show ?case by simp
next
  case (Suc k)
  then have "score e + int k \<le> 2 ^ 53" by simp
  from Suc.IH [OF this]
  have f: "RoomLeaderboard_findById u ((bumpScore u ^^ k) w) = Some (e\<lparr>score := score e + int k\<rparr>)" .
  from assms(2) Suc.prems have "\<bar>score e + int k + 1\<bar> \<le> 2 ^ 53" by simp
  then have "js_add (score e + int k) 1 = score e + int k + 1"
    by (rule js_add_exact)
  with bumpScore_existing [OF f] show ?case
    by (simp add: algebra_simps)
qed

lemma bumpScore_iter_absent:
  "RoomLeaderboard_findById u w = None \<Longrightarrow> (bumpScore u ^^ k) w = w"
  by (induction k) (simp_all add: bumpScore_absent)

lemma bumpScore_saturated:
  assumes "RoomLeaderboard_findById u w = Some e" and "score e = 2 ^ 53"
  shows "RoomLeaderboard_findById u (bumpScore u w) = Some e"
proof -
  have "js_add (score e) 1 = score e"
    by (simp only: assms(2) js_add_saturates)
  then have "e\<lparr>score := js_add (score e) 1\<rparr> = e"
    by simp
  with bumpScore_existing [OF assms(1)] show ?thesis by simp
qed

text \<open>
  Claim C1 says the score bump is an upsert that creates a missing entry with score 1.
  The code only updates: on a store without an entry for the user, one call (and a second
  one) leaves the store without any entry.
\<close>

theorem bumpScore_upsert_counterexample:
  "RoomLeaderboard_findById ''u1'' (bumpScore ''u1'' world0) = None \<and>
   leaderboards (bumpScore ''u1'' (bumpScore ''u1'' world0)) = []"
  by (simp add: bumpScore_def bumpScore_found_def RoomLeaderboard_findById_def world0_def)

text \<open>
  Claim C1, amended: the score bump looks the entry up by the user's id and only updates.
  Without an entry, any number \<open>k\<close> of calls leaves the store as it is.  With an entry
  \<open>e\<close>, one call stores \<open>e\<close> with the double sum of its score and 1 as its score; as
  long as the scores stay between \<open>- 2 ^ 53\<close> and \<open>2 ^ 53\<close>, where doubles count
  exactly, \<open>k\<close> calls store it with its score incremented by \<open>k\<close>, and at \<open>2 ^ 53\<close>
  a call leaves the score as it is.  The ids of the stored entries never change, so the
  operation creates no entry, in particular none with score 0.
\<close>

theorem bumpScore_update_only:
  "(RoomLeaderboard_findById u w = None \<longrightarrow> (bumpScore u ^^ k) w = w) \<and>
   (RoomLeaderboard_findById u w = Some e \<longrightarrow>
      RoomLeaderboard_findById u (bumpScore u w) = Some (e\<lparr>score := js_add (score e) 1\<rparr>)) \<and>
   (RoomLeaderboard_findById u w = Some e \<and> - (2 ^ 53) \<le> score e \<and> score e + int k \<le> 2 ^ 53 \<longrightarrow>
      RoomLeaderboard_findById u ((bumpScore u ^^ k) w) = Some (e\<lparr>score := score e + int k\<rparr>)) \<and>
   (RoomLeaderboard_findById u w = Some e \<and> score e = 2 ^ 53 \<longrightarrow>
      RoomLeaderboard_findById u (bumpScore u w) = Some e) \<and>
   map lb_id (leaderboards (bumpScore u w)) = map lb_id (leaderboards w)"
  using bumpScore_iter_absent [of u w k] bumpScore_existing [of u w e]
    bumpScore_iter [of u w e k] bumpScore_saturated [of u w e] bumpScore_ids [of u w]
  by blast

theorem bumpScore_update_only_witness:
  "RoomLeaderboard_findById ''u1'' world1 = Some entry1 \<and>
   - (2 ^ 53) \<le> score entry1 \<and> score entry1 + int 3 \<le> 2 ^ 53 \<and>
   RoomLeaderboard_findById ''u1'' (bumpScore ''u1'' world1) = Some (entry1\<lparr>score := 2\<rparr>) \<and>
   RoomLeaderboard_findById ''u1'' ((bumpScore ''u1'' ^^ 3) world1) = Some (entry1\<lparr>score := 4\<rparr>) \<and>
   RoomLeaderboard_findById ''u2'' world1 = None \<and>
   (bumpScore ''u2'' ^^ 3) world1 = world1 \<and>
   RoomLeaderboard_findById ''u1'' worldMax = Some entryMax \<and> score entryMax = 2 ^ 53 \<and>
   RoomLeaderboard_findById ''u1'' (bumpScore ''u1'' worldMax) = Some entryMax"
proof -
  have a: "RoomLeaderboard_findById ''u1'' world1 = Some entry1"
    by (simp add: RoomLeaderboard_findById_def world1_def world0_def entry1_def)
  have b: "RoomLeaderboard_findById ''u2'' world1 = None"
    by (simp add: RoomLeaderboard_findById_def world1_def world0_def entry1_def)
  have s: "score entry1 = 1"
    by (simp add: entry1_def)
  have j: "js_add 1 1 = 2"
    by (simp add: js_add_exact)
  have m: "RoomLeaderboard_findById ''u1'' worldMax = Some entryMax" "score entryMax = 2 ^ 53"
    by (simp_all add: RoomLeaderboard_findById_def worldMax_def world0_def entryMax_def)
  from a b s j bumpScore_update_only [of "''u1''" world1 3 entry1]
    bumpScore_update_only [of "''u2''" world1 3 entry1]
  have "RoomLeaderboard_findById ''u1'' (bumpScore ''u1'' world1) = Some (entry1\<lparr>score := 2\<rparr>) \<and>
        RoomLeaderboard_findById ''u1'' ((bumpScore ''u1'' ^^ 3) world1) = Some (entry1\<lparr>score := 4\<rparr>) \<and>
        (bumpScore ''u2'' ^^ 3) world1 = world1"
    by simp
  moreover from m bumpScore_update_only [of "''u1''" worldMax 0 entryMax]
  have "RoomLeaderboard_findById ''u1'' (bumpScore ''u1'' worldMax) = Some entryMax"
    by blast
  ultimately show ?thesis using a b s m by simp
qed

section \<open>Match winner: properties\<close>

lemma Math_max_empty: "(Math_max xs = NegInfinity) = (xs = [])"
  by (cases xs) (auto split: number.splits)

lemma Math_max_Finite:
  "Math_max xs = Finite m \<Longrightarrow> m \<in> set xs \<and> (\<forall>x\<in>set xs. x \<le> m)"
proof (induction xs arbitrary: m)
  case Nil
  then show ?case by simp
next
  case (Cons x xs)
  show ?case
  proof (cases "Math_max xs")
    case NegInfinity
    then have "xs = []" by (simp add: Math_max_empty)
    with Cons.prems show ?thesis by simp
  next
    case (Finite k)
    from Cons.IH [OF Finite] have k: "k \<in> set xs" "\<forall>y\<in>set xs. y \<le> k" by simp_all
    from Cons.prems Finite have m: "m = max x k" by simp
    show ?thesis
    proof (cases "x \<le> k")
      case True
      with m k show ?thesis by (auto simp: max_def)
    next
      case False
      with m k show ?thesis by (fastforce simp: max_def)
    qed
  qed
qed

lemma find_in_filter:
  "m \<in> set (map score (filter (\<lambda>b. guildId b = g) xs)) \<Longrightarrow>
   \<exists>e. find (\<lambda>b. guildId b = g \<and> Finite (score b) = Finite m) xs = Some e \<and>
       guildId e = g \<and> score e = m \<and> e \<in> set xs"
  by (induction xs) (auto split: if_splits)

lemma findOne_max:
  assumes "Math_max (map score (RoomLeaderboard_find g w)) = Finite m"
  shows "\<exists>e. RoomLeaderboard_findOne g (Finite m) w = Some e \<and>
           e \<in> set (RoomLeaderboard_find g w) \<and> score e = m"
proof -
  from Math_max_Finite [OF assms] have "m \<in> set (map score (RoomLeaderboard_find g w))" by simp
  then have "m \<in> set (map score (filter (\<lambda>b. guildId b = g) (leaderboards w)))"
    by (simp add: RoomLeaderboard_find_def)
  from find_in_filter [OF this] show ?thesis
    by (auto simp: RoomLeaderboard_findOne_def RoomLeaderboard_find_def)
qed

lemma findOne_NegInfinity: "RoomLeaderboard_findOne g NegInfinity w = None"
  by (simp add: RoomLeaderboard_findOne_def find_None_iff)

lemma getMatchWinner_multi_empty:
  "RoomLeaderboard_find (guildID h) w = [] \<Longrightarrow> getMatchWinner h False w = JSNull"
  by (simp add: getMatchWinner_def array_truthy_def findOne_NegInfinity)

lemma getMatchWinner_single_empty:
  "RoomLeaderboard_find (guildID h) w = [] \<Longrightarrow> getMatchWinner h True w = JSFalse"
  by (simp add: getMatchWinner_def array_truthy_def)

lemma getMatchWinner_multi_nonempty:
  assumes "RoomLeaderboard_find (guildID h) w \<noteq> []"
  shows "\<exists>e. getMatchWinner h False w = JSDoc e \<and> e \<in> set (RoomLeaderboard_find (guildID h) w) \<and>
           (\<forall>b\<in>set (RoomLeaderboard_find (guildID h) w). score b \<le> score e)"
proof -
  from assms obtain m where m: "Math_max (map score (RoomLeaderboard_find (guildID h) w)) = Finite m"
    by (cases "Math_max (map score (RoomLeaderboard_find (guildID h) w))") (simp_all add: Math_max_empty)
  from findOne_max [OF m] obtain e where e: "RoomLeaderboard_findOne (guildID h) (Finite m) w = Some e"
    "e \<in> set (RoomLeaderboard_find (guildID h) w)" "score e = m" by blast
  from Math_max_Finite [OF m] have "\<forall>b\<in>set (RoomLeaderboard_find (guildID h) w). score b \<le> m" by simp
  with m e show ?thesis
    by (simp add: getMatchWinner_def array_truthy_def Let_def)
qed

lemma getMatchWinner_single_iff:
  "truthy (getMatchWinner h True w) =
   (\<not> exceeds (Math_round (rat_of_int (rounds (options h)) / 2))
        (minus_one (Math_max (map score (RoomLeaderboard_find (guildID h) w)))))"
proof (cases "Math_max (map score (RoomLeaderboard_find (guildID h) w))")
  case NegInfinity
  then show ?thesis by (simp add: getMatchWinner_def array_truthy_def Let_def)
next
  case (Finite m)
  from findOne_max [OF Finite] obtain e where "RoomLeaderboard_findOne (guildID h) (Finite m) w = Some e"
    by blast
  with Finite show ?thesis by (simp add: getMatchWinner_def array_truthy_def Let_def)
qed

lemma Math_round_nearest:
  "rat_of_int (Math_round x) - 1 / 2 \<le> x \<and> x < rat_of_int (Math_round x) + 1 / 2"
  unfolding Math_round_def by linarith

lemma Math_round_half: "Math_round (rat_of_int n / 2) = (n + 1) div 2"
proof -
  have "rat_of_int n / 2 + 1 / 2 = rat_of_int (n + 1) / rat_of_int 2"
    by (simp add: add_divide_distrib)
  then show ?thesis
    unfolding Math_round_def by (simp only: floor_divide_of_int_eq)
qed


lemma getMatchWinner_single_Finite:
  assumes "Math_max (map score (RoomLeaderboard_find (guildID h) w)) = Finite maxScore"
  shows "truthy (getMatchWinner h True w) =
         (maxScore - 1 \<ge> Math_round (rat_of_int (rounds (options h)) / 2))"
  using assms by (simp add: getMatchWinner_single_iff not_less)

lemma getMatchWinner_single_one_entry:
  assumes "RoomLeaderboard_find (guildID h) w = [e]"
  shows "getMatchWinner h True w =
         (if Math_round (rat_of_int (rounds (options h)) / 2) > score e - 1 then JSFalse else JSDoc e)"
proof -
  from assms have m: "Math_max (map score (RoomLeaderboard_find (guildID h) w)) = Finite (score e)"
    by simp
  from findOne_max [OF m] assms have "RoomLeaderboard_findOne (guildID h) (Finite (score e)) w = Some e"
    by auto
  with m show ?thesis
    by (simp add: getMatchWinner_def array_truthy_def Let_def)
qed

text \<open>
  Claim C3: in single-player mode the winner computation declares a winner (returns a
  truthy value) if and only if the rounded half of the configured rounds does not exceed
  the highest score minus one, where the highest score of a guild without entries is
  \<^verbatim>\<open>-Infinity\<close>; for a finite highest score \<open>maxScore\<close> this is
  \<open>maxScore - 1 \<ge> Math_round (rounds / 2)\<close>.  \<open>Math_round\<close> yields the nearest
  integer, a tie going up.  With ten rounds, a sole entry with score 6 is returned as the
  winner and a sole entry with score 5 gives \<^verbatim>\<open>false\<close>.
\<close>

theorem getMatchWinner_singleplayer_rule:
  "(truthy (getMatchWinner h True w) \<longleftrightarrow>
      \<not> exceeds (Math_round (rat_of_int (rounds (options h)) / 2))
          (minus_one (Math_max (map score (RoomLeaderboard_find (guildID h) w))))) \<and>
   (Math_max (map score (RoomLeaderboard_find (guildID h) w)) = Finite maxScore \<longrightarrow>
      (truthy (getMatchWinner h True w) \<longleftrightarrow>
         maxScore - 1 \<ge> Math_round (rat_of_int (rounds (options h)) / 2))) \<and>
   (rat_of_int (Math_round x) - 1 / 2 \<le> x \<and> x < rat_of_int (Math_round x) + 1 / 2) \<and>
   (rounds (options h) = 10 \<and> RoomLeaderboard_find (guildID h) w = [e] \<longrightarrow>
      (score e = 6 \<longrightarrow> getMatchWinner h True w = JSDoc e) \<and>
      (score e = 5 \<longrightarrow> getMatchWinner h True w = JSFalse))"
proof -
  have "(score e = 6 \<longrightarrow> getMatchWinner h True w = JSDoc e) \<and>
        (score e = 5 \<longrightarrow> getMatchWinner h True w = JSFalse)"
    if "rounds (options h) = 10" and "RoomLeaderboard_find (guildID h) w = [e]"
    using getMatchWinner_single_one_entry [OF that(2)] Math_round_half [of 10] that(1)
    by simp
  then show ?thesis
    using getMatchWinner_single_iff [of h w] getMatchWinner_single_Finite [of h w maxScore]
      Math_round_nearest [of x]
    by blast
qed

theorem getMatchWinner_singleplayer_rule_witness:
  "rounds (options handler10) = 10 \<and>
   RoomLeaderboard_find (guildID handler10) world6 = [entry6] \<and>
   Math_max (map score (RoomLeaderboard_find (guildID handler10) world6)) = Finite 6 \<and>
   truthy (getMatchWinner handler10 True world6) \<and>
   getMatchWinner handler10 True world6 = JSDoc entry6 \<and>
   RoomLeaderboard_find (guildID handler10) world5 = [entry5] \<and>
   getMatchWinner handler10 True world5 = JSFalse"
proof -
  have r: "rounds (options handler10) = 10"
    by (simp add: handler10_def)
  have a: "RoomLeaderboard_find (guildID handler10) world6 = [entry6]"
    by (simp add: RoomLeaderboard_find_def handler10_def world6_def world0_def entry6_def)
  have b: "RoomLeaderboard_find (guildID handler10) world5 = [entry5]"
    by (simp add: RoomLeaderboard_find_def handler10_def world5_def world0_def entry5_def)
  have m: "Math_max (map score (RoomLeaderboard_find (guildID handler10) world6)) = Finite 6"
    by (simp add: a entry6_def)
  have s: "score entry6 = 6" "score entry5 = 5"
    by (simp_all add: entry6_def entry5_def)
  from r a b m s
    getMatchWinner_singleplayer_rule [where h = handler10 and w = world6 and e = entry6
      and maxScore = 6 and x = 0]
    getMatchWinner_singleplayer_rule [where h = handler10 and w = world5 and e = entry5
      and maxScore = 0 and x = 0]
  show ?thesis by simp
qed

text \<open>
  Claim C8: for a guild without leaderboard entries the winner computation returns
  \<^verbatim>\<open>false\<close> in single-player mode and \<^verbatim>\<open>null\<close> in multiplayer mode, both
  falsy, and does not fail.  When the guild has entries, in multiplayer mode it returns
  one of them whose score is at least the score of every entry of the guild.
\<close>

theorem getMatchWinner_no_entries:
  "(RoomLeaderboard_find (guildID h) w = [] \<longrightarrow>
      getMatchWinner h True w = JSFalse \<and> getMatchWinner h False w = JSNull \<and>
      \<not> truthy (getMatchWinner h sp w)) \<and>
   (RoomLeaderboard_find (guildID h) w \<noteq> [] \<longrightarrow>
      (\<exists>e. getMatchWinner h False w = JSDoc e \<and>
           e \<in> set (RoomLeaderboard_find (guildID h) w) \<and>
           (\<forall>b\<in>set (RoomLeaderboard_find (guildID h) w). score b \<le> score e)))"
proof -
  have "\<not> truthy (getMatchWinner h sp w)" if "RoomLeaderboard_find (guildID h) w = []"
    using getMatchWinner_single_empty [OF that] getMatchWinner_multi_empty [OF that]
    by (cases sp) simp_all
  then show ?thesis
    using getMatchWinner_single_empty [of h w] getMatchWinner_multi_empty [of h w]
      getMatchWinner_multi_nonempty [of h w]
    by blast
qed

theorem getMatchWinner_no_entries_witness:
  "RoomLeaderboard_find (guildID handler10) world0 = [] \<and>
   getMatchWinner handler10 True world0 = JSFalse \<and>
   getMatchWinner handler10 False world0 = JSNull \<and>
   RoomLeaderboard_find (guildID handler10) world47 = [entry4, entry7] \<and>
   getMatchWinner handler10 False world47 = JSDoc entry7"
proof -
  have a: "RoomLeaderboard_find (guildID handler10) world0 = []"
    by (simp add: RoomLeaderboard_find_def world0_def)
  have b: "RoomLeaderboard_find (guildID handler10) world47 = [entry4, entry7]"
    by (simp add: RoomLeaderboard_find_def handler10_def world47_def world0_def
        entry4_def entry7_def)
  have s: "score entry4 = 4" "score entry7 = 7"
    by (simp_all add: entry4_def entry7_def)
  from a getMatchWinner_no_entries [of handler10 world0 True]
  have c: "getMatchWinner handler10 True world0 = JSFalse \<and>
           getMatchWinner handler10 False world0 = JSNull"
    by simp
  from b s getMatchWinner_no_entries [of handler10 world47 True]
  have d: "getMatchWinner handler10 False world47 = JSDoc entry7"
    by auto
  from a b c d show ?thesis by simp
qed

section \<open>Player-mode classification: properties\<close>

lemma length_filter_one:
  assumes "distinct xs"
  shows "(length (filter P xs) = 1) = (\<exists>!m. m \<in> set xs \<and> P m)"
proof -
  from assms have "length (filter P xs) = card {m \<in> set xs. P m}"
    by (simp add: distinct_length_filter Collect_conj_eq Int_commute Collect_mem_eq)
  moreover have "(card {m \<in> set xs. P m} = 1) = (\<exists>!m. m \<in> set xs \<and> P m)"
    using is_singleton_altdef [of "{m \<in> set xs. P m}"]
      is_singleton_iff_ex1 [of "{m \<in> set xs. P m}"] by simp
  ultimately show ?thesis by simp
qed

text \<open>
  Claim C7 says a voice channel is single-player if and only if it holds exactly one
  participant that is not a bot.  The code leaves out only the bot itself, the member
  with the client's own user id: in a voice channel with the bot, one person and another
  bot account, exactly one member is no bot, and the classification is not single-player.
\<close>

theorem isSinglePlayer_non_bot_counterexample:
  "ctype botsChannel = 2 \<and>
   map bot (voiceMembers botsChannel) = [True, False, True] \<and>
   isSinglePlayer handler10 botsChannel = Inr False"
  by (simp add: botsChannel_def handler10_def isSinglePlayer_def)

text \<open>
  Claim C7, amended: a channel that is not a voice channel (type 2) makes the
  classification fail with the error \<^verbatim>\<open>Invalid Channel Type\<close>; a voice channel is
  single-player if and only if exactly one of its connected members is not the bot itself
  (has an id other than the client's own user id), whether or not that member is a bot
  account.
\<close>

theorem isSinglePlayer_classification:
  "(ctype ch \<noteq> 2 \<longrightarrow> isSinglePlayer h ch = Inl (Error ''Invalid Channel Type'')) \<and>
   (ctype ch = 2 \<longrightarrow>
      isSinglePlayer h ch = Inr (length (filter (\<lambda>m. member_id m \<noteq> botID h) (voiceMembers ch)) = 1)) \<and>
   (ctype ch = 2 \<and> distinct (voiceMembers ch) \<longrightarrow>
      isSinglePlayer h ch = Inr (\<exists>!m. m \<in> set (voiceMembers ch) \<and> member_id m \<noteq> botID h))"
proof -
  have "isSinglePlayer h ch = Inr (\<exists>!m. m \<in> set (voiceMembers ch) \<and> member_id m \<noteq> botID h)"
    if "ctype ch = 2" and "distinct (voiceMembers ch)"
    using that(1) length_filter_one [OF that(2), of "\<lambda>m. member_id m \<noteq> botID h"]
    by (simp add: isSinglePlayer_def Let_def)
  then show ?thesis
    by (simp add: isSinglePlayer_def Let_def)
qed

theorem isSinglePlayer_classification_witness:
  "ctype textChannel \<noteq> 2 \<and>
   isSinglePlayer handler10 textChannel = Inl (Error ''Invalid Channel Type'') \<and>
   ctype soloChannel = 2 \<and> distinct (voiceMembers soloChannel) \<and>
   isSinglePlayer handler10 soloChannel = Inr True \<and>
   ctype duoChannel = 2 \<and> distinct (voiceMembers duoChannel) \<and>
   isSinglePlayer handler10 duoChannel = Inr False \<and>
   ctype botsChannel = 2 \<and> distinct (voiceMembers botsChannel) \<and>
   isSinglePlayer handler10 botsChannel = Inr False"
proof -
  have a: "ctype textChannel \<noteq> 2"
    by (simp add: textChannel_def)
  have b: "ctype soloChannel = 2" "distinct (voiceMembers soloChannel)"
    "length (filter (\<lambda>m. member_id m \<noteq> botID handler10) (voiceMembers soloChannel)) = 1"
    by (simp_all add: soloChannel_def handler10_def)
  have c: "ctype duoChannel = 2" "distinct (voiceMembers duoChannel)"
    "length (filter (\<lambda>m. member_id m \<noteq> botID handler10) (voiceMembers duoChannel)) = 2"
    by (simp_all add: duoChannel_def handler10_def)
  have d: "ctype botsChannel = 2" "distinct (voiceMembers botsChannel)"
    "length (filter (\<lambda>m. member_id m \<noteq> botID handler10) (voiceMembers botsChannel)) = 2"
    by (simp_all add: botsChannel_def handler10_def)
  from a b c d isSinglePlayer_classification [of textChannel handler10]
    isSinglePlayer_classification [of soloChannel handler10]
    isSinglePlayer_classification [of duoChannel handler10]
    isSinglePlayer_classification [of botsChannel handler10]
  show ?thesis by simp
qed

section \<open>Random element of an array: properties\<close>

lemma is_double_zero: "is_double 0"
  unfolding is_double_def by (rule exI [of _ 0], rule exI [of _ 0], rule exI [of _ 0]) simp

lemma double_below_one:
  assumes "is_double r" and "r < 1"
  shows "r \<le> 1 - 1 / 2 ^ 53"
proof (cases "r \<le> 1 / 2")
  case True
  then show ?thesis by simp
next
  case False
  from assms(1) obtain m :: int and a b :: nat
    where m: "\<bar>m\<bar> < 2 ^ 53" and r: "r = rat_of_int m * 2 ^ a / 2 ^ b"
    unfolding is_double_def by blast
  from False have half: "1 / 2 < r" by simp
  then have "0 < r" by linarith
  with r have pos: "0 < rat_of_int m * 2 ^ a / 2 ^ b" by simp
  then have mpos: "0 < m" by (simp add: zero_less_divide_iff zero_less_mult_iff)
  from half r have "1 / 2 < rat_of_int m * 2 ^ a / 2 ^ b" by simp
  then have "(2::rat) ^ b < rat_of_int m * 2 ^ a * 2" by (simp add: field_simps)
  also from m mpos have "rat_of_int m * 2 ^ a * 2 < 2 ^ 53 * 2 ^ a * 2"
    by (simp add: of_int_less_numeral_power_cancel_iff)
  also have "\<dots> = (2::rat) ^ (a + 54)" by (simp add: power_add)
  finally have "(2::rat) ^ b < 2 ^ (a + 54)" .
  then have "b < a + 54" by simp
  then have "b \<le> a + 53" by simp
  then obtain c where c: "a + 53 = b + c" using le_Suc_ex by blast
  have "r * 2 ^ 53 = rat_of_int m * 2 ^ (a + 53) / 2 ^ b"
    by (simp add: r power_add)
  also have "\<dots> = rat_of_int m * 2 ^ c"
    by (simp add: c power_add)
  also have "\<dots> = rat_of_int (m * 2 ^ c)" by simp
  finally have i: "r * 2 ^ 53 = rat_of_int (m * 2 ^ c)" .
  from assms(2) have "r * 2 ^ 53 < 2 ^ 53" by simp
  with i have "rat_of_int (m * 2 ^ c) < rat_of_int (2 ^ 53)" by simp
  then have "m * 2 ^ c < 2 ^ 53" by (simp only: of_int_less_iff)
  then have "m * 2 ^ c \<le> 2 ^ 53 - 1" by simp
  then have "rat_of_int (m * 2 ^ c) \<le> rat_of_int (2 ^ 53 - 1)" by (simp only: of_int_le_iff)
  with i have "r * 2 ^ 53 \<le> 2 ^ 53 - 1" by simp
  then show ?thesis by (simp add: field_simps)
qed

lemma binade:
  assumes "1 \<le> n" and "n < (2::nat) ^ 32"
  shows "\<exists>k\<le>32. n \<le> 2 ^ k \<and> 2 ^ k < 2 * n"
proof -
  define k where "k = (LEAST k. n \<le> 2 ^ k)"
  from assms(2) have e: "n \<le> 2 ^ 32" by simp
  then have kn: "n \<le> 2 ^ k" unfolding k_def by (rule LeastI)
  from e have k32: "k \<le> 32" unfolding k_def by (rule Least_le)
  have "2 ^ k < 2 * n"
  proof (cases k)
    case 0
    with assms(1) show ?thesis by simp
  next
    case (Suc j)
    have "\<not> n \<le> 2 ^ j"
    proof
      assume "n \<le> 2 ^ j"
      then have "k \<le> j" unfolding k_def by (rule Least_le)
      with Suc show False by simp
    qed
    with Suc show ?thesis by simp
  qed
  with kn k32 show ?thesis by blast
qed

lemma double_below_length:
  assumes "k \<le> 32" and "n \<le> 2 ^ k" and "1 \<le> (n::nat)"
  shows "is_double (rat_of_nat n - 2 ^ k / 2 ^ 53)"
proof -
  from assms(1) obtain j where j: "53 = k + j" using le_Suc_ex [of k 53] by auto
  define m :: int where "m = int n * 2 ^ j - 1"
  have "0 \<le> m"
  proof -
    from assms(3) have "1 * 1 \<le> int n * 2 ^ j"
      by (intro mult_mono) simp_all
    then show ?thesis unfolding m_def by simp
  qed
  moreover have "m < 2 ^ 53"
  proof -
    from assms(2) have "int n \<le> 2 ^ k"
      by (metis of_nat_le_iff of_nat_numeral of_nat_power)
    then have "int n * 2 ^ j \<le> 2 ^ k * 2 ^ j"
      by (rule mult_right_mono) simp
    moreover have "(2::int) ^ k * 2 ^ j = 2 ^ 53"
      by (simp only: j power_add)
    ultimately show ?thesis unfolding m_def by linarith
  qed
  ultimately have a: "\<bar>m\<bar> < 2 ^ 53" by simp
  have "rat_of_nat n - 2 ^ k / 2 ^ 53 = rat_of_int m * 2 ^ k / 2 ^ 53"
    unfolding m_def by (simp add: j power_add field_simps)
  with a assms(1) show ?thesis
    unfolding is_double_def
    by (intro exI [of _ m] exI [of _ k] exI [of _ 53]) simp
qed

lemma rounded_product_below_length:
  assumes r: "is_double r" "r < 1" "0 \<le> r"
    and n: "1 \<le> n" "n < (2::nat) ^ 32"
    and p: "nearest_double (r * rat_of_nat n) p"
  shows "p < rat_of_nat n"
proof (rule ccontr)
  assume "\<not> p < rat_of_nat n"
  then have pn: "rat_of_nat n \<le> p" by simp
  let ?x = "r * rat_of_nat n"
  from n(1) have npos: "0 < rat_of_nat n" by simp
  from double_below_one [OF r(1,2)] npos
  have "?x \<le> (1 - 1 / 2 ^ 53) * rat_of_nat n"
    by (simp only: mult_le_cancel_right_pos)
  then have x: "?x \<le> rat_of_nat n - rat_of_nat n / 2 ^ 53"
    by (simp add: algebra_simps)
  from binade [OF n] obtain k where k: "k \<le> 32" "n \<le> 2 ^ k" "2 ^ k < 2 * n" by blast
  let ?d = "rat_of_nat n - 2 ^ k / 2 ^ 53"
  from double_below_length [OF k(1,2) n(1)] have "is_double ?d" .
  with p have near: "\<bar>?x - p\<bar> \<le> \<bar>?x - ?d\<bar>"
    unfolding nearest_double_def by blast
  from k(3) have "rat_of_nat (2 ^ k) < rat_of_nat (2 * n)" by (simp only: of_nat_less_iff)
  then have u: "(2::rat) ^ k / 2 ^ 53 < 2 * rat_of_nat n / 2 ^ 53"
    by (simp add: divide_strict_right_mono)
  have dn: "?d < rat_of_nat n" by simp
  from npos have "0 < rat_of_nat n / 2 ^ 53" by simp
  with x pn have xp: "\<bar>?x - p\<bar> = p - ?x" "rat_of_nat n / 2 ^ 53 \<le> p - ?x"
    by linarith+
  show False
  proof (cases "?d \<le> ?x")
    case True
    then have "\<bar>?x - ?d\<bar> = ?x - ?d" by simp
    with near xp x u show False by linarith
  next
    case False
    then have "\<bar>?x - ?d\<bar> = ?d - ?x" by simp
    with near xp dn pn show False by linarith
  qed
qed

lemma rounded_product_nonneg:
  assumes "0 \<le> x" and "nearest_double x p"
  shows "0 \<le> p"
proof (rule ccontr)
  assume "\<not> 0 \<le> p"
  then have "p < 0" by simp
  with assms(1) have "\<bar>x - 0\<bar> < \<bar>x - p\<bar>" by simp
  moreover from assms(2) is_double_zero have "\<bar>x - p\<bar> \<le> \<bar>x - 0\<bar>"
    unfolding nearest_double_def by blast
  ultimately show False by simp
qed

text \<open>
  Claim C10: \<^verbatim>\<open>randomValueInArray\<close> has no failing branch.  For a random number in
  the range of \<^verbatim>\<open>Math.random()\<close> (a double that is at least 0 and below 1), an array
  of a length JavaScript allows (below \<open>2 ^ 32\<close>) and the product rounded to a nearest
  double, it returns an element of a non-empty array: the index is in bounds, the rounded
  product never reaches the length.  For the empty array it returns \<^verbatim>\<open>undefined\<close>.
\<close>

theorem randomValueInArray_in_bounds:
  assumes "is_double random" and "0 \<le> random" and "random < 1"
    and "length array < 2 ^ 32"
    and "nearest_double (random * rat_of_nat (length array))
           (fl (random * rat_of_nat (length array)))"
  shows "(array \<noteq> [] \<longrightarrow> (\<exists>x\<in>set array. randomValueInArray fl random array = Some x)) \<and>
         (array = [] \<longrightarrow> randomValueInArray fl random array = None)"
proof (cases "array = []")
  case True
  then show ?thesis by (simp add: randomValueInArray_def js_index_def)
next
  case False
  let ?n = "length array"
  let ?p = "fl (random * rat_of_nat ?n)"
  let ?i = "\<lfloor>?p\<rfloor>"
  from False have n: "1 \<le> ?n" by (cases array) simp_all
  from assms(2) have "0 \<le> random * rat_of_nat ?n" by simp
  from rounded_product_nonneg [OF this assms(5)] have lo: "0 \<le> ?i" by simp
  from rounded_product_below_length [OF assms(1,3,2) n assms(4,5)]
  have "?p < rat_of_int (int ?n)" by simp
  then have hi: "?i < int ?n" by (simp only: floor_less_iff)
  from lo hi have "nat ?i < ?n" by linarith
  then have "array ! nat ?i \<in> set array" by simp
  with lo hi False show ?thesis
    by (simp add: randomValueInArray_def js_index_def)
qed

theorem randomValueInArray_in_bounds_witness:
  "is_double (1 / 2) \<and> (0::rat) \<le> 1 / 2 \<and> (1 / 2 :: rat) < 1 \<and>
   length [10, 20, 30 :: int] < 2 ^ 32 \<and>
   nearest_double (1 / 2 * rat_of_nat (length [10, 20, 30 :: int]))
     (1 / 2 * rat_of_nat (length [10, 20, 30 :: int])) \<and>
   (\<exists>x\<in>set [10, 20, 30 :: int]. randomValueInArray (\<lambda>x. x) (1 / 2) [10, 20, 30] = Some x) \<and>
   randomValueInArray (\<lambda>x. x) (1 / 2) ([] :: int list) = None"
proof -
  have d: "is_double (1 / 2)"
    unfolding is_double_def by (intro exI [of _ 1] exI [of _ 0]) simp
  have lo: "(0::rat) \<le> 1 / 2" and hi: "(1 / 2 :: rat) < 1"
    by simp_all
  have l: "length [10, 20, 30 :: int] < 2 ^ 32" "length ([] :: int list) < 2 ^ 32"
    by simp_all
  have "is_double (3 / 2)"
    unfolding is_double_def by (intro exI [of _ 3] exI [of _ 0] exI [of _ 1]) simp
  then have n: "nearest_double (1 / 2 * rat_of_nat (length [10, 20, 30 :: int]))
             (1 / 2 * rat_of_nat (length [10, 20, 30 :: int]))"
    by (simp add: nearest_double_def)
  have e: "nearest_double (1 / 2 * rat_of_nat (length ([] :: int list)))
             (1 / 2 * rat_of_nat (length ([] :: int list)))"
    by (simp add: nearest_double_def is_double_zero)
  from randomValueInArray_in_bounds [of "1 / 2" "[10, 20, 30 :: int]" "\<lambda>x. x", OF d lo hi l(1) n]
    randomValueInArray_in_bounds [of "1 / 2" "[] :: int list" "\<lambda>x. x", OF d lo hi l(2) e]
    d lo hi l(1) n
  show ?thesis by simp
qed

section \<open>Theme selection: properties\<close>

lemma chooseTheme_stops:
  "(\<forall>j<k. retried cache (src (n + j))) \<Longrightarrow> \<not> retried cache (src (n + k)) \<Longrightarrow>
   chooseTheme src cache n = settled (src (n + k))"
proof (induction k arbitrary: n)
  case 0
  then show ?case
    by (subst chooseTheme.simps) (auto split: sum.splits option.splits)
next
  case (Suc k)
  from Suc.prems(1) have r: "retried cache (src n)"
    by (metis add.right_neutral zero_less_Suc)
  from Suc.prems(1) have "\<forall>j<k. retried cache (src (Suc n + j))"
    by (metis Suc_less_eq add_Suc_shift)
  moreover from Suc.prems(2) have "\<not> retried cache (src (Suc n + k))" by simp
  ultimately have "chooseTheme src cache (Suc n) = settled (src (Suc n + k))"
    by (rule Suc.IH)
  with r show ?case
    by (subst chooseTheme.simps) (auto split: sum.splits option.splits)
qed

lemma settled_Some: "\<not> retried cache r \<Longrightarrow> settled r \<noteq> None"
  by (cases "(cache, r)" rule: retried.cases) auto

lemma chooseTheme_returns:
  "chooseTheme src cache n = Some y \<Longrightarrow>
   \<exists>k. (\<forall>j<k. retried cache (src (n + j))) \<and> \<not> retried cache (src (n + k)) \<and>
       settled (src (n + k)) = Some y"
proof (induction src cache n y rule: chooseTheme.raw_induct [rotated 1, consumes 1])
  case (1 f src cache n y)
  show ?case
  proof (cases "retried cache (src n)")
    case False
    with 1(2) have "settled (src n) = Some y"
      by (auto split: sum.splits option.splits if_splits)
    with False have "(\<forall>j<0. retried cache (src (n + j))) \<and> \<not> retried cache (src (n + 0)) \<and>
       settled (src (n + 0)) = Some y" by simp
    then show ?thesis by blast
  next
    case True
    with 1(2) have "f src cache (Suc n) = Some y"
      by (auto split: sum.splits option.splits if_splits)
    from 1(1) [OF this]
    have "\<exists>k. (\<forall>j<k. retried cache (src (Suc n + j))) \<and>
            \<not> retried cache (src (Suc n + k)) \<and> settled (src (Suc n + k)) = Some y" .
    then obtain k where k: "\<forall>j<k. retried cache (src (Suc n + j))"
      "\<not> retried cache (src (Suc n + k))" "settled (src (Suc n + k)) = Some y"
      by (elim exE conjE)
    have "\<forall>j<Suc k. retried cache (src (n + j))"
    proof (intro allI impI)
      fix j assume "j < Suc k"
      show "retried cache (src (n + j))"
      proof (cases j)
        case 0
        with True show ?thesis by simp
      next
        case (Suc i)
        with \<open>j < Suc k\<close> k(1) show ?thesis by simp
      qed
    qed
    with k(2,3) have "(\<forall>j<Suc k. retried cache (src (n + j))) \<and>
        \<not> retried cache (src (n + Suc k)) \<and> settled (src (n + Suc k)) = Some y" by simp
    then show ?thesis by blast
  qed
qed

lemma chooseTheme_diverges:
  assumes "\<forall>k. retried cache (src (n + k))"
  shows "chooseTheme src cache n = None"
proof (cases "chooseTheme src cache n")
  case None
  then show ?thesis .
next
  case (Some y)
  from chooseTheme_returns [OF Some] assms show ?thesis by blast
qed

text \<open>
  Claim C5 says theme selection terminates for every behaviour of the theme source,
  bounded by a retry cap, and fails with ThemeUnavailable when the cap is exhausted.
  The code has no cap: against a source that returns the same, already cached theme on
  every call, \<^verbatim>\<open>chooseTheme\<close> never returns, neither a theme nor a failure.
\<close>

theorem chooseTheme_unbounded_counterexample:
  "chooseTheme sameTheme cache0 0 = None"
  by (rule chooseTheme_diverges) (simp add: sameTheme_def cache0_def)

text \<open>
  Claim C5, amended: \<^verbatim>\<open>chooseTheme\<close> asks the theme source again for as long as the
  source finds no theme or returns one whose link is in the cache, and returns the first
  answer that is a rejection or a theme not in the cache, after any number \<open>k\<close> of
  retried answers; every result it returns arises this way.  There is no retry cap and no
  ThemeUnavailable failure: when every answer of the source is one that is retried, the
  function does not return.
\<close>

theorem chooseTheme_retries_until_fresh:
  "((\<forall>j<k. retried cache (src (n + j))) \<and> \<not> retried cache (src (n + k)) \<longrightarrow>
      chooseTheme src cache n = settled (src (n + k)) \<and> settled (src (n + k)) \<noteq> None) \<and>
   ((\<forall>i. retried cache (src (n + i))) \<longrightarrow> chooseTheme src cache n = None) \<and>
   (chooseTheme src cache n = Some y \<longrightarrow>
      (\<exists>m. (\<forall>j<m. retried cache (src (n + j))) \<and> \<not> retried cache (src (n + m)) \<and>
           settled (src (n + m)) = Some y))"
  using chooseTheme_stops [of k cache src n] settled_Some [of cache "src (n + k)"]
    chooseTheme_diverges [of cache src n] chooseTheme_returns [of src cache n y]
  by blast

theorem chooseTheme_retries_until_fresh_witness:
  "retried cache0 (freshAfterTwo 0) \<and> retried cache0 (freshAfterTwo 1) \<and>
   \<not> retried cache0 (freshAfterTwo (0 + 2)) \<and>
   chooseTheme freshAfterTwo cache0 0 = Some (Inr theme1) \<and>
   (\<forall>i. retried cache0 (sameTheme (0 + i))) \<and>
   chooseTheme sameTheme cache0 0 = None"
proof -
  have a: "\<forall>j<2. retried cache0 (freshAfterTwo (0 + j))"
    by (simp add: freshAfterTwo_def cache0_def)
  have b: "\<not> retried cache0 (freshAfterTwo (0 + 2))"
    by (simp add: freshAfterTwo_def cache0_def theme0_def theme1_def)
  have c: "\<forall>i. retried cache0 (sameTheme (0 + i))"
    by (simp add: sameTheme_def cache0_def)
  have d: "settled (freshAfterTwo (0 + 2)) = Some (Inr theme1)"
    by (simp add: freshAfterTwo_def)
  have e: "retried cache0 (freshAfterTwo 0)" "retried cache0 (freshAfterTwo 1)"
    by (simp_all add: freshAfterTwo_def cache0_def)
  from a b c d e chooseTheme_retries_until_fresh [of 2 cache0 freshAfterTwo 0]
    chooseTheme_retries_until_fresh [of 0 cache0 sameTheme 0]
  show ?thesis by simp
qed

section \<open>Clean-up: properties\<close>

lemma fold_deleteOne:
  "fold RoomLeaderboard_deleteOne bs w =
   w\<lparr>leaderboards := filter (\<lambda>x. lb_id x \<notin> lb_id ` set bs) (leaderboards w)\<rparr>"
proof (induction bs arbitrary: w)
  case Nil
  then show ?case by simp
next
  case (Cons b bs)
  have "fold RoomLeaderboard_deleteOne (b # bs) w =
        fold RoomLeaderboard_deleteOne bs (RoomLeaderboard_deleteOne b w)"
    by simp
  also have "\<dots> = (RoomLeaderboard_deleteOne b w)\<lparr>leaderboards :=
        filter (\<lambda>x. lb_id x \<notin> lb_id ` set bs) (leaderboards (RoomLeaderboard_deleteOne b w))\<rparr>"
    by (rule Cons.IH)
  also have "\<dots> = w\<lparr>leaderboards := filter (\<lambda>x. lb_id x \<notin> lb_id ` set (b # bs)) (leaderboards w)\<rparr>"
    by (simp add: RoomLeaderboard_deleteOne_def)
  finally show ?case .
qed

lemma clearData_eq:
  "clearData h r g w =
   w\<lparr>themesCache := Map.empty,
     leaderboards := filter (\<lambda>x. lb_id x \<notin> lb_id ` set (RoomLeaderboard_find (guildID h) w))
                       (leaderboards w),
     guilds := (guilds w)(guild_id g \<mapsto> g\<lparr>rolling := False\<rparr>),
     rooms := (rooms w)(room_id r := None)\<rparr>"
  by (simp add: clearData_def Let_def fold_deleteOne Guild_save_def Room_deleteOne_def
      RoomLeaderboard_find_def)

lemma clearData_find:
  "RoomLeaderboard_find (guildID h) (clearData h r g w) = []"
  by (auto simp: clearData_eq RoomLeaderboard_find_def filter_empty_conv)

lemma clearData_idem:
  "clearData h r g (clearData h r g w) = clearData h r g w"
proof -
  have "RoomLeaderboard_find (guildID h) (clearData h r g w) = []"
    by (rule clearData_find)
  then have "clearData h r g (clearData h r g w) =
             (clearData h r g w)\<lparr>themesCache := Map.empty,
               leaderboards := leaderboards (clearData h r g w),
               guilds := (guilds (clearData h r g w))(guild_id g \<mapsto> g\<lparr>rolling := False\<rparr>),
               rooms := (rooms (clearData h r g w))(room_id r := None)\<rparr>"
    by (subst clearData_eq) simp
  also have "\<dots> = clearData h r g w"
    by (simp add: clearData_eq)
  finally show ?thesis .
qed

text \<open>
  Claim C9: the session-clear operation removes the Session record, leaves the guild
  without any leaderboard entry, stores the guild with \<^verbatim>\<open>rolling\<close> false and empties
  the theme cache; running it a second time on the result changes nothing.  The
  operation has no failing step: deleting a document that is no longer stored does
  nothing.  The deletions it starts without awaiting them are run to completion.
\<close>

theorem clearData_idempotent:
  "rooms (clearData h r g w) (room_id r) = None \<and>
   RoomLeaderboard_find (guildID h) (clearData h r g w) = [] \<and>
   guilds (clearData h r g w) (guild_id g) = Some (g\<lparr>rolling := False\<rparr>) \<and>
   themesCache (clearData h r g w) = Map.empty \<and>
   clearData h r g (clearData h r g w) = clearData h r g w"
  using clearData_find [of h r g w] clearData_idem [of h r g w]
  by (simp add: clearData_eq)

theorem clearData_idempotent_witness:
  "rooms (clearData handler3 room3 (guild1\<lparr>rolling := True\<rparr>) worldR3) ''g1'' = None \<and>
   leaderboards (clearData handler3 room3 (guild1\<lparr>rolling := True\<rparr>) worldR3) = [] \<and>
   guilds (clearData handler3 room3 (guild1\<lparr>rolling := True\<rparr>) worldR3) ''g1'' = Some guild1 \<and>
   clearData handler3 room3 (guild1\<lparr>rolling := True\<rparr>)
     (clearData handler3 room3 (guild1\<lparr>rolling := True\<rparr>) worldR3) =
   clearData handler3 room3 (guild1\<lparr>rolling := True\<rparr>) worldR3"
proof -
  have a: "leaderboards (clearData handler3 room3 (guild1\<lparr>rolling := True\<rparr>) worldR3) = []"
    by (simp add: clearData_eq RoomLeaderboard_find_def handler3_def handler10_def worldR3_def
        world47_def world0_def entry4_def entry7_def)
  have b: "room_id room3 = ''g1''" "guild_id (guild1\<lparr>rolling := True\<rparr>) = ''g1''"
    "guild1\<lparr>rolling := True, rolling := False\<rparr> = guild1"
    by (simp_all add: room3_def guild1_def)
  from a b clearData_idempotent [of handler3 room3 "guild1\<lparr>rolling := True\<rparr>" worldR3]
  show ?thesis by simp
qed

section \<open>Resolving a round: properties\<close>

lemma handleFinish_force:
  "handleFinish h r vc sp True w = (Inr (), emit (LeaveVoiceChannel (Some vc)) w)"
  by (simp add: handleFinish_def)

lemma onEnd_forced:
  "onEnd h rd ''forceFinished'' w =
   (Inr Done, clearData h (rd_room rd) (rd_guild rd)
      (emit (LeaveVoiceChannel (Some (rd_voiceChannelID rd))) w))"
  by (simp add: onEnd_def Let_def handleFinish_force)

text \<open>
  Claim C2 says that a forced stop computes the match winner from the current
  leaderboard.  On a store where the winner computation yields the entry with score 7
  and the final-round handling of a natural timeout congratulates its holder, the forced
  stop produces nothing but the call that leaves the voice channel: the winner is
  neither computed nor announced.
\<close>

theorem onEnd_forced_stop_counterexample:
  "getMatchWinner handler3 False worldR3 = JSDoc entry7 \<and>
   trace (snd (handleFinish handler3 room3 ''vc1'' False False worldR3)) =
     [CreateMessage (Congrats ''u2'' 10), LeaveVoiceChannel (Some ''vc1'')] \<and>
   trace (snd (onEnd handler3 round3 ''forceFinished'' worldR3)) =
     [LeaveVoiceChannel (Some ''vc1'')]"
proof -
  have f: "RoomLeaderboard_find (guildID handler3) worldR3 = [entry4, entry7]"
    by (simp add: RoomLeaderboard_find_def handler3_def handler10_def worldR3_def world47_def
        world0_def entry4_def entry7_def)
  have o: "RoomLeaderboard_findOne (guildID handler3) (Finite 7) worldR3 = Some entry7"
    by (simp add: RoomLeaderboard_findOne_def handler3_def handler10_def worldR3_def world47_def
        world0_def entry4_def entry7_def)
  have w: "getMatchWinner handler3 False worldR3 = JSDoc entry7"
    by (simp add: getMatchWinner_def array_truthy_def f o Let_def) (simp add: entry4_def entry7_def o)
  have u: "users worldR3 (lb_id entry7) = Some user2"
    by (simp add: worldR3_def entry7_def)
  have l: "handleLevelByMode handler3 (user_id user2) (mode (options handler3)) worldR3 =
           Some \<lparr>stats_xp = 10, stats_level = 1\<rparr>"
    by (simp add: handler3_def handler10_def)
  have t: "trace worldR3 = []"
    by (simp add: worldR3_def world47_def world0_def)
  have "trace (snd (handleFinish handler3 room3 ''vc1'' False False worldR3)) =
     [CreateMessage (Congrats ''u2'' 10), LeaveVoiceChannel (Some ''vc1'')]"
    by (simp add: handleFinish_def w u l emit_def t) (simp add: user2_def)
  moreover have "trace (snd (onEnd handler3 round3 ''forceFinished'' worldR3)) =
     [LeaveVoiceChannel (Some ''vc1'')]"
    by (simp add: onEnd_forced clearData_eq emit_def t) (simp add: round3_def)
  ultimately show ?thesis using w by simp
qed

text \<open>
  Claim C2, amended: whenever the answer collector ends with the reason
  \<^verbatim>\<open>forceFinished\<close>, the callback takes the forced path: it sends no message at all
  (no reveal, no answerers, no winner announcement; the winner computation is skipped),
  leaves the voice channel, and clears the session data: the Session record is deleted,
  the guild is left without leaderboard entries and stored with \<^verbatim>\<open>rolling\<close> false,
  the theme cache is emptied; no further round is started.  The path depends on the end
  reason alone.
\<close>

theorem onEnd_forced_stop:
  "fst (onEnd h rd ''forceFinished'' w) = Inr Done \<and>
   trace (snd (onEnd h rd ''forceFinished'' w)) =
     trace w @ [LeaveVoiceChannel (Some (rd_voiceChannelID rd))] \<and>
   rooms (snd (onEnd h rd ''forceFinished'' w)) (room_id (rd_room rd)) = None \<and>
   RoomLeaderboard_find (guildID h) (snd (onEnd h rd ''forceFinished'' w)) = [] \<and>
   guilds (snd (onEnd h rd ''forceFinished'' w)) (guild_id (rd_guild rd)) =
     Some ((rd_guild rd)\<lparr>rolling := False\<rparr>) \<and>
   themesCache (snd (onEnd h rd ''forceFinished'' w)) = Map.empty \<and>
   users (snd (onEnd h rd ''forceFinished'' w)) = users w"
  using clearData_find [of h "rd_room rd" "rd_guild rd"
      "emit (LeaveVoiceChannel (Some (rd_voiceChannelID rd))) w"]
  by (simp add: onEnd_forced) (simp add: clearData_eq emit_def)

section \<open>Starting a round: properties\<close>

lemma startNewRound_no_voice:
  assumes "io_voiceChannelID io = None"
  shows "fst (startNewRound h guild io w) = Inr Returned \<and>
         rooms (snd (startNewRound h guild io w)) = rooms w \<and>
         guilds (snd (startNewRound h guild io w)) = guilds w \<and>
         leaderboards (snd (startNewRound h guild io w)) = leaderboards w \<and>
         trace (snd (startNewRound h guild io w)) =
           trace w @ (if rooms w (guildID h) \<noteq> None
                      then [LeaveVoiceChannel None, CreateMessage NoUsersInTheVoiceChannel]
                      else [CreateMessage NoVoiceChannel])"
  using assms by (simp add: startNewRound_def emit_def)


lemma startNewRound_round_active:
  assumes "io_voiceChannelID io = Some voiceChannelID"
    and "io_voiceChannel io = Some voiceChannel"
    and "isSinglePlayer h voiceChannel = Inr isSingleplayer"
    and "handleRoom h isSingleplayer w = (Inr room, w1)"
    and "io_theme io = Inr theme"
    and "io_stream io = Some stream"
    and "io_animeData io = Inr ()"
  shows "startNewRound h guild io w =
         (Inr (RoundActive \<lparr>rd_room = room, rd_guild = guild\<lparr>rolling := True\<rparr>, rd_theme = theme,
                 rd_voiceChannelID = voiceChannelID, rd_isSingleplayer = isSingleplayer\<rparr>),
          w1\<lparr>guilds := (guilds w1)(guild_id guild \<mapsto> guild\<lparr>rolling := True\<rparr>),
             themesCache := (themesCache w1)(link theme \<mapsto> guildID h),
             trace := trace w1 @ [CreateMessage (if currentRound room = 1 then PreparingMatchEmbed
                                                  else StartingNextRoundEmbed),
                                  CreateMessage (RoundStartedEmbed (currentRound room)),
                                  PlayTheme voiceChannelID stream]\<rparr>)"
  using assms by (simp add: startNewRound_def getTheme_def Let_def emit_def Guild_save_def)


lemma storingRoomHandler_existing:
  "rooms w gid = Some r \<Longrightarrow>
   storingRoomHandler gid cid uid sp w =
   (Inr (r\<lparr>currentRound := currentRound r + 1, answerers := []\<rparr>),
    Room_save (r\<lparr>currentRound := currentRound r + 1, answerers := []\<rparr>) w)"
  by (simp add: storingRoomHandler_def Let_def)



section \<open>Round progression: properties\<close>

lemma getMatchWinner_found_eq:
  "getMatchWinner h sp w = getMatchWinner_found h sp (RoomLeaderboard_find (guildID h) w) w"
  by (simp add: getMatchWinner_def getMatchWinner_found_def Let_def)

lemma handleFinish_found_eq:
  "handleFinish h room vc sp False w =
   handleFinish_found h room vc sp (RoomLeaderboard_find (guildID h) w) w"
  by (simp add: handleFinish_def handleFinish_found_def getMatchWinner_found_eq)

lemma reveal_eq:
  "reveal rd w = w\<lparr>trace := trace w @ [CreateMessage TheAnswerIs,
     CreateMessage (AnswerEmbed (rd_theme rd)), CreateMessage (Winners (answerers (rd_room rd)))]\<rparr>"
  by (simp add: reveal_def emit_def Let_def)

lemma bumpScore_found_frame:
  "rooms (bumpScore_found l w) = rooms w \<and> guilds (bumpScore_found l w) = guilds w \<and>
   themesCache (bumpScore_found l w) = themesCache w \<and> users (bumpScore_found l w) = users w \<and>
   trace (bumpScore_found l w) = trace w"
  by (simp add: bumpScore_found_def RoomLeaderboard_save_def split: option.splits)

lemma handleLevel_found_frame:
  "rooms (handleLevel_found h i u w) = rooms w \<and> guilds (handleLevel_found h i u w) = guilds w \<and>
   themesCache (handleLevel_found h i u w) = themesCache w \<and>
   leaderboards (handleLevel_found h i u w) = leaderboards w"
  by (simp add: handleLevel_found_def User_save_def emit_def Let_def split: option.splits)

lemma fold_answered_frame:
  "rooms (fold (\<lambda>i w'. handleLevel_found h i (us i) (bumpScore_found (ls i) w')) ids w) = rooms w \<and>
   guilds (fold (\<lambda>i w'. handleLevel_found h i (us i) (bumpScore_found (ls i) w')) ids w) = guilds w \<and>
   themesCache (fold (\<lambda>i w'. handleLevel_found h i (us i) (bumpScore_found (ls i) w')) ids w) =
     themesCache w"
  by (induction ids arbitrary: w) (simp_all add: bumpScore_found_frame handleLevel_found_frame)

lemma answered_frame:
  "rooms (answered h rd w) = rooms w \<and> guilds (answered h rd w) = guilds w \<and>
   themesCache (answered h rd w) = themesCache w"
  unfolding answered_def by (rule fold_answered_frame)

lemma handleFinish_found_no_winner:
  "\<not> truthy (getMatchWinner_found h sp found w) \<Longrightarrow>
   handleFinish_found h room vc sp found w = (Inr (), emit (LeaveVoiceChannel (Some vc)) w)"
  by (cases "getMatchWinner_found h sp found w") (simp_all add: handleFinish_found_def)

lemma handleFinish_found_winner:
  "getMatchWinner_found h sp found w = JSDoc mw \<Longrightarrow> users w (lb_id mw) = Some u \<Longrightarrow>
   handleLevelByMode h (user_id u) (mode (options h)) w = Some st \<Longrightarrow>
   handleFinish_found h room vc sp found w =
   (Inr (), emit (LeaveVoiceChannel (Some vc))
              (emit (CreateMessage (Congrats (user_id u) (stats_xp st))) w))"
  by (simp add: handleFinish_found_def)

lemma handleFinish_found_no_profile:
  "getMatchWinner_found h sp found w = JSDoc mw \<Longrightarrow> users w (lb_id mw) = None \<Longrightarrow>
   handleFinish_found h room vc sp found w = (Inl TypeError, w)"
  by (simp add: handleFinish_found_def)

lemma onEnd_natural_final:
  assumes "stopReason \<noteq> ''forceFinished''" and "rounds (options h) \<le> currentRound (rd_room rd)"
  shows "onEnd h rd stopReason w =
         (case handleFinish_found h (rd_room rd) (rd_voiceChannelID rd) (rd_isSingleplayer rd)
                 (RoomLeaderboard_find (guildID h) (reveal rd w)) (answered h rd (reveal rd w)) of
            (Inl e, w3) \<Rightarrow> (Inl e, w3)
          | (Inr u, w3) \<Rightarrow>
              (Inr Done, emit (CreateMessage RoundEnded)
                           (clearData h (rd_room rd) (rd_guild rd) w3)))"
  using assms by (simp add: onEnd_def Let_def)

lemma onEnd_natural_next:
  assumes "stopReason \<noteq> ''forceFinished''" and "currentRound (rd_room rd) < rounds (options h)"
  shows "onEnd h rd stopReason w = (Inr (StartNewRound (rd_guild rd)), answered h rd (reveal rd w))"
  using assms by (simp add: onEnd_def Let_def)

lemma onEnd_natural_final_no_next:
  assumes "stopReason \<noteq> ''forceFinished''" and "rounds (options h) \<le> currentRound (rd_room rd)"
  shows "fst (onEnd h rd stopReason w) \<noteq> Inr (StartNewRound g)"
proof (cases "handleFinish_found h (rd_room rd) (rd_voiceChannelID rd) (rd_isSingleplayer rd)
                 (RoomLeaderboard_find (guildID h) (reveal rd w)) (answered h rd (reveal rd w))")
  case (Pair r w3)
  then show ?thesis
    by (cases r) (simp_all add: onEnd_natural_final [OF assms])
qed

lemma onEnd_natural_final_cleared:
  assumes "stopReason \<noteq> ''forceFinished''" and "rounds (options h) \<le> currentRound (rd_room rd)"
    and "fst (onEnd h rd stopReason w) = Inr Done"
  shows "rooms (snd (onEnd h rd stopReason w)) (room_id (rd_room rd)) = None \<and>
         RoomLeaderboard_find (guildID h) (snd (onEnd h rd stopReason w)) = [] \<and>
         guilds (snd (onEnd h rd stopReason w)) (guild_id (rd_guild rd)) =
           Some ((rd_guild rd)\<lparr>rolling := False\<rparr>)"
proof (cases "handleFinish_found h (rd_room rd) (rd_voiceChannelID rd) (rd_isSingleplayer rd)
                 (RoomLeaderboard_find (guildID h) (reveal rd w)) (answered h rd (reveal rd w))")
  case (Pair r w3)
  show ?thesis
  proof (cases r)
    case (Inl e)
    with Pair assms(3) show ?thesis
      by (simp add: onEnd_natural_final [OF assms(1,2)])
  next
    case (Inr u)
    with Pair have eq: "snd (onEnd h rd stopReason w) =
        emit (CreateMessage RoundEnded) (clearData h (rd_room rd) (rd_guild rd) w3)"
      by (simp add: onEnd_natural_final [OF assms(1,2)])
    have "RoomLeaderboard_find (guildID h) (emit (CreateMessage RoundEnded)
            (clearData h (rd_room rd) (rd_guild rd) w3)) =
          RoomLeaderboard_find (guildID h) (clearData h (rd_room rd) (rd_guild rd) w3)"
      by (simp add: RoomLeaderboard_find_def emit_def)
    then show ?thesis
      by (simp add: eq clearData_find) (simp add: emit_def clearData_eq)
  qed
qed

text \<open>
  Claim C6 says that a round resolved by natural timeout ends the session, with its
  stored state deleted, when the round was the last one, and otherwise starts a new round
  with the round counter incremented and the answerers reset.  Neither half holds on
  every input.  With three rounds configured, when round 3 resolves and the holder of the
  highest score has no user profile, the final winner handling throws on the read of the
  profile's id: the callback ends with that error, the room stays stored and the guild
  stays rolling.  And when round 2 resolves after the requester has left the voice
  channel, the round start that the callback issues only posts a message and returns: the
  stored room is still at round 2, with its answerers.
\<close>

theorem onEnd_natural_timeout_counterexample:
  "rounds (options handler3) = 3 \<and> currentRound (rd_room round3a) = 3 \<and>
   users worldNoProfile ''u2'' = None \<and>
   fst (onEnd handler3 round3a ''time'' worldNoProfile) = Inl TypeError \<and>
   rooms (snd (onEnd handler3 round3a ''time'' worldNoProfile)) ''g1'' = Some room3a \<and>
   guilds (snd (onEnd handler3 round3a ''time'' worldNoProfile)) ''g1'' =
     Some (guild1\<lparr>rolling := True\<rparr>) \<and>
   RoomLeaderboard_find ''g1'' (snd (onEnd handler3 round3a ''time'' worldNoProfile)) =
     [entry4\<lparr>score := 5\<rparr>, entry7] \<and>
   currentRound (rd_room round2) = 2 \<and> io_voiceChannelID ioNoVoice = None \<and>
   fst (onEnd handler3 round2 ''time'' worldR2) = Inr (StartNewRound (guild1\<lparr>rolling := True\<rparr>)) \<and>
   fst (startNewRound handler3 (guild1\<lparr>rolling := True\<rparr>) ioNoVoice
          (snd (onEnd handler3 round2 ''time'' worldR2))) = Inr Returned \<and>
   rooms (snd (startNewRound handler3 (guild1\<lparr>rolling := True\<rparr>) ioNoVoice
          (snd (onEnd handler3 round2 ''time'' worldR2)))) ''g1'' = Some room2 \<and>
   currentRound room2 = 2 \<and> answerers room2 = [''u2''] \<and>
   trace (snd (startNewRound handler3 (guild1\<lparr>rolling := True\<rparr>) ioNoVoice
          (snd (onEnd handler3 round2 ''time'' worldR2)))) =
     [CreateMessage TheAnswerIs, CreateMessage (AnswerEmbed theme1),
      CreateMessage (Winners [''u2'']), LeaveVoiceChannel None,
      CreateMessage NoUsersInTheVoiceChannel]"
proof -
  have h: "rounds (options handler3) = 3" "guildID handler3 = ''g1''"
    "mode (options handler3) = ''normal''"
    "handleLevelByMode handler3 = (\<lambda>u m w. Some \<lparr>stats_xp = 10, stats_level = 1\<rparr>)"
    by (simp_all add: handler3_def handler10_def)
  have r3: "currentRound (rd_room round3a) = 3" "answerers (rd_room round3a) = [''u1'']"
    "rd_room round3a = room3a" "rd_guild round3a = guild1\<lparr>rolling := True\<rparr>"
    "rd_isSingleplayer round3a = False" "rd_theme round3a = theme1"
    "currentRound room3a = 3" "answerers room3a = [''u1'']"
    by (simp_all add: round3a_def round3_def room3a_def room3_def)
  have r2: "currentRound (rd_room round2) = 2" "answerers (rd_room round2) = [''u2'']"
    "rd_room round2 = room2" "rd_guild round2 = guild1\<lparr>rolling := True\<rparr>"
    "rd_isSingleplayer round2 = False" "rd_theme round2 = theme1"
    "currentRound room2 = 2" "answerers room2 = [''u2'']"
    by (simp_all add: round2_def round3_def room2_def room3_def)
  have wN: "users worldNoProfile = [''u1'' \<mapsto> user1]"
    "leaderboards worldNoProfile = [entry4, entry7]"
    "rooms worldNoProfile = [''g1'' \<mapsto> room3a]"
    "guilds worldNoProfile = [''g1'' \<mapsto> guild1\<lparr>rolling := True\<rparr>]"
    "trace worldNoProfile = []"
    by (simp_all add: worldNoProfile_def worldR3a_def worldR3_def world47_def world0_def)
  have w2: "users worldR2 = [''u1'' \<mapsto> user1, ''u2'' \<mapsto> user2]"
    "leaderboards worldR2 = [entry4, entry7]"
    "rooms worldR2 = [''g1'' \<mapsto> room2]"
    "guilds worldR2 = [''g1'' \<mapsto> guild1\<lparr>rolling := True\<rparr>]"
    "trace worldR2 = []"
    by (simp_all add: worldR2_def worldR3_def world47_def world0_def)
  have e: "lb_id entry4 = ''u1''" "lb_id entry7 = ''u2''" "guildId entry4 = ''g1''"
    "guildId entry7 = ''g1''" "score entry4 = 4" "score entry7 = 7"
    by (simp_all add: entry4_def entry7_def)
  have j: "js_add 4 1 = 5" "js_add 7 1 = 8"
    by (simp_all add: js_add_exact)
  have aN: "answered handler3 round3a (reveal round3a worldNoProfile) =
      (reveal round3a worldNoProfile)\<lparr>leaderboards := [entry4\<lparr>score := 5\<rparr>, entry7],
         users := [''u1'' \<mapsto> user1\<lparr>xp := 10\<rparr>]\<rparr>"
    by (simp add: answered_def r3 reveal_eq wN e j h RoomLeaderboard_findById_def
        bumpScore_found_def RoomLeaderboard_save_def handleLevel_found_def Let_def User_save_def
        user1_def)
  have lN: "RoomLeaderboard_find ''g1'' (reveal round3a worldNoProfile) = [entry4, entry7]"
    by (simp add: RoomLeaderboard_find_def reveal_eq wN e)
  have fN: "getMatchWinner_found handler3 False
        (RoomLeaderboard_find ''g1'' (reveal round3a worldNoProfile))
        (answered handler3 round3a (reveal round3a worldNoProfile)) = JSDoc entry7"
    by (simp add: aN lN getMatchWinner_found_def e h array_truthy_def
        RoomLeaderboard_findOne_def Let_def)
  have uN: "users (answered handler3 round3a (reveal round3a worldNoProfile)) (lb_id entry7) = None"
    by (simp add: aN e)
  have A: "onEnd handler3 round3a ''time'' worldNoProfile =
      (Inl TypeError, answered handler3 round3a (reveal round3a worldNoProfile))"
    by (simp add: onEnd_natural_final h r3 handleFinish_found_no_profile [OF _ uN] fN)
  have B: "onEnd handler3 round2 ''time'' worldR2 =
      (Inr (StartNewRound (guild1\<lparr>rolling := True\<rparr>)), answered handler3 round2 (reveal round2 worldR2))"
    by (simp add: onEnd_natural_next h r2)
  have io: "io_voiceChannelID ioNoVoice = None"
    by (simp add: ioNoVoice_def ioStreamFails_def)
  have tB: "trace (answered handler3 round2 (reveal round2 worldR2)) =
      [CreateMessage TheAnswerIs, CreateMessage (AnswerEmbed theme1),
       CreateMessage (Winners [''u2''])]"
    by (simp add: answered_def r2 reveal_eq w2 e j h RoomLeaderboard_findById_def
        bumpScore_found_def RoomLeaderboard_save_def handleLevel_found_def Let_def User_save_def
        user2_def emit_def)
  have rB: "rooms (answered handler3 round2 (reveal round2 worldR2)) = [''g1'' \<mapsto> room2]"
    by (simp add: answered_frame reveal_eq w2)
  have C: "fst (startNewRound handler3 (guild1\<lparr>rolling := True\<rparr>) ioNoVoice
             (answered handler3 round2 (reveal round2 worldR2))) = Inr Returned \<and>
           rooms (snd (startNewRound handler3 (guild1\<lparr>rolling := True\<rparr>) ioNoVoice
             (answered handler3 round2 (reveal round2 worldR2)))) ''g1'' = Some room2 \<and>
           trace (snd (startNewRound handler3 (guild1\<lparr>rolling := True\<rparr>) ioNoVoice
             (answered handler3 round2 (reveal round2 worldR2)))) =
           [CreateMessage TheAnswerIs, CreateMessage (AnswerEmbed theme1),
            CreateMessage (Winners [''u2'']), LeaveVoiceChannel None,
            CreateMessage NoUsersInTheVoiceChannel]"
    by (simp add: startNewRound_no_voice [OF io] rB tB h)
  have D: "rooms (answered handler3 round3a (reveal round3a worldNoProfile)) ''g1'' = Some room3a"
    "guilds (answered handler3 round3a (reveal round3a worldNoProfile)) ''g1'' =
       Some (guild1\<lparr>rolling := True\<rparr>)"
    by (simp_all add: answered_frame reveal_eq wN)
  have E: "RoomLeaderboard_find ''g1'' (answered handler3 round3a (reveal round3a worldNoProfile)) =
       [entry4\<lparr>score := 5\<rparr>, entry7]"
    by (simp add: aN RoomLeaderboard_find_def e)
  from h(1) r3(1) wN(1) A B C D E r2(1,7,8) io show ?thesis
    by simp
qed

text \<open>
  Claim C6, amended: when a round resolves by natural timeout and its number has reached
  the configured number of rounds, no further round starts, and the final winner handling
  runs on the winner that is computed from the scores as they were read before the bumps
  of this round and looked up after them: without a winner the bot leaves the voice
  channel, with a winner that has a profile and a level result the winner is
  congratulated first; then the session is cleared and the end is announced; and
  whenever the callback completes, the room and the leaderboard entries of the guild are
  deleted and the guild is no longer rolling.  When the number has not reached the
  configured one, the callback issues a round start with the same guild document and
  leaves rooms and guilds as they are; that round start, when the requester is in no
  voice channel, only posts a message and leaves the stored room as it is, and when it
  gets through, opens the round on the room that the room handler has returned, with the
  guild document set rolling.
\<close>

theorem onEnd_natural_timeout:
  assumes "stopReason \<noteq> ''forceFinished''"
  shows "(rounds (options h) \<le> currentRound (rd_room rd) \<longrightarrow>
           (\<forall>g. fst (onEnd h rd stopReason w) \<noteq> Inr (StartNewRound g)) \<and>
           (\<not> truthy (finalWinner h rd w) \<longrightarrow>
              onEnd h rd stopReason w =
                (Inr Done,
                 emit (CreateMessage RoundEnded)
                   (clearData h (rd_room rd) (rd_guild rd)
                     (emit (LeaveVoiceChannel (Some (rd_voiceChannelID rd)))
                       (answered h rd (reveal rd w)))))) \<and>
           (finalWinner h rd w = JSDoc matchWinner \<and>
            users (answered h rd (reveal rd w)) (lb_id matchWinner) = Some winnerUser \<and>
            handleLevelByMode h (user_id winnerUser) (mode (options h))
              (answered h rd (reveal rd w)) = Some newStats \<longrightarrow>
              onEnd h rd stopReason w =
                (Inr Done,
                 emit (CreateMessage RoundEnded)
                   (clearData h (rd_room rd) (rd_guild rd)
                     (emit (LeaveVoiceChannel (Some (rd_voiceChannelID rd)))
                       (emit (CreateMessage (Congrats (user_id winnerUser) (stats_xp newStats)))
                         (answered h rd (reveal rd w))))))) \<and>
           (fst (onEnd h rd stopReason w) = Inr Done \<longrightarrow>
              rooms (snd (onEnd h rd stopReason w)) (room_id (rd_room rd)) = None \<and>
              RoomLeaderboard_find (guildID h) (snd (onEnd h rd stopReason w)) = [] \<and>
              guilds (snd (onEnd h rd stopReason w)) (guild_id (rd_guild rd)) =
                Some ((rd_guild rd)\<lparr>rolling := False\<rparr>))) \<and>
         (currentRound (rd_room rd) < rounds (options h) \<longrightarrow>
           onEnd h rd stopReason w = (Inr (StartNewRound (rd_guild rd)), answered h rd (reveal rd w)) \<and>
           rooms (answered h rd (reveal rd w)) = rooms w \<and>
           guilds (answered h rd (reveal rd w)) = guilds w \<and>
           (io_voiceChannelID io = None \<longrightarrow>
              fst (startNewRound h (rd_guild rd) io (answered h rd (reveal rd w))) = Inr Returned \<and>
              rooms (snd (startNewRound h (rd_guild rd) io (answered h rd (reveal rd w)))) = rooms w \<and>
              guilds (snd (startNewRound h (rd_guild rd) io (answered h rd (reveal rd w)))) =
                guilds w) \<and>
           (io_voiceChannelID io = Some voiceChannelID \<and> io_voiceChannel io = Some voiceChannel \<and>
            isSinglePlayer h voiceChannel = Inr isSingleplayer \<and>
            handleRoom h isSingleplayer (answered h rd (reveal rd w)) = (Inr room, w1) \<and>
            io_theme io = Inr theme \<and> io_stream io = Some stream \<and> io_animeData io = Inr () \<longrightarrow>
              fst (startNewRound h (rd_guild rd) io (answered h rd (reveal rd w))) =
                Inr (RoundActive \<lparr>rd_room = room, rd_guild = (rd_guild rd)\<lparr>rolling := True\<rparr>,
                       rd_theme = theme, rd_voiceChannelID = voiceChannelID,
                       rd_isSingleplayer = isSingleplayer\<rparr>) \<and>
              rooms (snd (startNewRound h (rd_guild rd) io (answered h rd (reveal rd w)))) =
                rooms w1 \<and>
              guilds (snd (startNewRound h (rd_guild rd) io (answered h rd (reveal rd w)))) =
                (guilds w1)(guild_id (rd_guild rd) \<mapsto> (rd_guild rd)\<lparr>rolling := True\<rparr>)))"
proof (intro conjI impI allI)
  fix g
  assume "rounds (options h) \<le> currentRound (rd_room rd)"
  then show "fst (onEnd h rd stopReason w) \<noteq> Inr (StartNewRound g)"
    by (rule onEnd_natural_final_no_next [OF assms])
next
  assume f: "rounds (options h) \<le> currentRound (rd_room rd)"
    and n: "\<not> truthy (finalWinner h rd w)"
  from n show "onEnd h rd stopReason w =
      (Inr Done,
       emit (CreateMessage RoundEnded)
         (clearData h (rd_room rd) (rd_guild rd)
           (emit (LeaveVoiceChannel (Some (rd_voiceChannelID rd))) (answered h rd (reveal rd w)))))"
    by (simp add: onEnd_natural_final [OF assms f] finalWinner_def handleFinish_found_no_winner)
next
  assume f: "rounds (options h) \<le> currentRound (rd_room rd)"
    and m: "finalWinner h rd w = JSDoc matchWinner \<and>
            users (answered h rd (reveal rd w)) (lb_id matchWinner) = Some winnerUser \<and>
            handleLevelByMode h (user_id winnerUser) (mode (options h))
              (answered h rd (reveal rd w)) = Some newStats"
  from m have a: "getMatchWinner_found h (rd_isSingleplayer rd)
       (RoomLeaderboard_find (guildID h) (reveal rd w)) (answered h rd (reveal rd w)) =
     JSDoc matchWinner"
    and b: "users (answered h rd (reveal rd w)) (lb_id matchWinner) = Some winnerUser"
    and c: "handleLevelByMode h (user_id winnerUser) (mode (options h))
              (answered h rd (reveal rd w)) = Some newStats"
    by (simp_all add: finalWinner_def)
  from handleFinish_found_winner [OF a b c] show "onEnd h rd stopReason w =
      (Inr Done,
       emit (CreateMessage RoundEnded)
         (clearData h (rd_room rd) (rd_guild rd)
           (emit (LeaveVoiceChannel (Some (rd_voiceChannelID rd)))
             (emit (CreateMessage (Congrats (user_id winnerUser) (stats_xp newStats)))
               (answered h rd (reveal rd w))))))"
    by (simp add: onEnd_natural_final [OF assms f])
next
  assume f: "rounds (options h) \<le> currentRound (rd_room rd)"
    and d: "fst (onEnd h rd stopReason w) = Inr Done"
  from onEnd_natural_final_cleared [OF assms f d]
  show "rooms (snd (onEnd h rd stopReason w)) (room_id (rd_room rd)) = None"
    and "RoomLeaderboard_find (guildID h) (snd (onEnd h rd stopReason w)) = []"
    and "guilds (snd (onEnd h rd stopReason w)) (guild_id (rd_guild rd)) =
           Some ((rd_guild rd)\<lparr>rolling := False\<rparr>)"
    by simp_all
next
  assume "currentRound (rd_room rd) < rounds (options h)"
  then show "onEnd h rd stopReason w =
      (Inr (StartNewRound (rd_guild rd)), answered h rd (reveal rd w))"
    by (rule onEnd_natural_next [OF assms])
next
  show "rooms (answered h rd (reveal rd w)) = rooms w"
    by (simp add: answered_frame reveal_eq)
next
  show "guilds (answered h rd (reveal rd w)) = guilds w"
    by (simp add: answered_frame reveal_eq)
next
  assume v: "io_voiceChannelID io = None"
  from startNewRound_no_voice [OF v]
  show "fst (startNewRound h (rd_guild rd) io (answered h rd (reveal rd w))) = Inr Returned"
    and "rooms (snd (startNewRound h (rd_guild rd) io (answered h rd (reveal rd w)))) = rooms w"
    and "guilds (snd (startNewRound h (rd_guild rd) io (answered h rd (reveal rd w)))) = guilds w"
    by (simp_all add: answered_frame reveal_eq)
next
  assume p: "io_voiceChannelID io = Some voiceChannelID \<and> io_voiceChannel io = Some voiceChannel \<and>
            isSinglePlayer h voiceChannel = Inr isSingleplayer \<and>
            handleRoom h isSingleplayer (answered h rd (reveal rd w)) = (Inr room, w1) \<and>
            io_theme io = Inr theme \<and> io_stream io = Some stream \<and> io_animeData io = Inr ()"
  then have q: "io_voiceChannelID io = Some voiceChannelID" "io_voiceChannel io = Some voiceChannel"
    "isSinglePlayer h voiceChannel = Inr isSingleplayer"
    "handleRoom h isSingleplayer (answered h rd (reveal rd w)) = (Inr room, w1)"
    "io_theme io = Inr theme" "io_stream io = Some stream" "io_animeData io = Inr ()"
    by simp_all
  have "startNewRound h (rd_guild rd) io (answered h rd (reveal rd w)) =
         (Inr (RoundActive \<lparr>rd_room = room, rd_guild = (rd_guild rd)\<lparr>rolling := True\<rparr>,
                 rd_theme = theme, rd_voiceChannelID = voiceChannelID,
                 rd_isSingleplayer = isSingleplayer\<rparr>),
          w1\<lparr>guilds := (guilds w1)(guild_id (rd_guild rd) \<mapsto> (rd_guild rd)\<lparr>rolling := True\<rparr>),
             themesCache := (themesCache w1)(link theme \<mapsto> guildID h),
             trace := trace w1 @ [CreateMessage (if currentRound room = 1 then PreparingMatchEmbed
                                                  else StartingNextRoundEmbed),
                                  CreateMessage (RoundStartedEmbed (currentRound room)),
                                  PlayTheme voiceChannelID stream]\<rparr>)"
    by (rule startNewRound_round_active [OF q])
  then show "fst (startNewRound h (rd_guild rd) io (answered h rd (reveal rd w))) =
                Inr (RoundActive \<lparr>rd_room = room, rd_guild = (rd_guild rd)\<lparr>rolling := True\<rparr>,
                       rd_theme = theme, rd_voiceChannelID = voiceChannelID,
                       rd_isSingleplayer = isSingleplayer\<rparr>)"
    and "rooms (snd (startNewRound h (rd_guild rd) io (answered h rd (reveal rd w)))) = rooms w1"
    and "guilds (snd (startNewRound h (rd_guild rd) io (answered h rd (reveal rd w)))) =
                (guilds w1)(guild_id (rd_guild rd) \<mapsto> (rd_guild rd)\<lparr>rolling := True\<rparr>)"
    by simp_all
qed

theorem onEnd_natural_timeout_witness:
  "''time'' \<noteq> ''forceFinished'' \<and> rounds (options handler3) = 3 \<and>
   currentRound (rd_room round3) = 3 \<and> finalWinner handler3 round3 worldR3 = JSNull \<and>
   fst (onEnd handler3 round3 ''time'' worldR3) = Inr Done \<and>
   trace (snd (onEnd handler3 round3 ''time'' worldR3)) =
     [CreateMessage TheAnswerIs, CreateMessage (AnswerEmbed theme1),
      CreateMessage (Winners [''u2'']), LeaveVoiceChannel (Some ''vc1''),
      CreateMessage RoundEnded] \<and>
   rooms (snd (onEnd handler3 round3 ''time'' worldR3)) ''g1'' = None \<and>
   RoomLeaderboard_find ''g1'' (snd (onEnd handler3 round3 ''time'' worldR3)) = [] \<and>
   guilds (snd (onEnd handler3 round3 ''time'' worldR3)) ''g1'' = Some guild1 \<and>
   currentRound (rd_room round3a) = 3 \<and> finalWinner handler3 round3a worldR3a = JSDoc entry7 \<and>
   fst (onEnd handler3 round3a ''time'' worldR3a) = Inr Done \<and>
   trace (snd (onEnd handler3 round3a ''time'' worldR3a)) =
     [CreateMessage TheAnswerIs, CreateMessage (AnswerEmbed theme1),
      CreateMessage (Winners [''u1'']), CreateMessage (Congrats ''u2'' 10),
      LeaveVoiceChannel (Some ''vc1''), CreateMessage RoundEnded] \<and>
   rooms (snd (onEnd handler3 round3a ''time'' worldR3a)) ''g1'' = None \<and>
   RoomLeaderboard_find ''g1'' (snd (onEnd handler3 round3a ''time'' worldR3a)) = [] \<and>
   guilds (snd (onEnd handler3 round3a ''time'' worldR3a)) ''g1'' = Some guild1 \<and>
   currentRound (rd_room round2) = 2 \<and>
   fst (onEnd handler3 round2 ''time'' worldR2) = Inr (StartNewRound (guild1\<lparr>rolling := True\<rparr>)) \<and>
   rooms (snd (onEnd handler3 round2 ''time'' worldR2)) = rooms worldR2 \<and>
   guilds (snd (onEnd handler3 round2 ''time'' worldR2)) = guilds worldR2 \<and>
   io_voiceChannelID ioNoVoice = None \<and>
   fst (startNewRound handler3 (guild1\<lparr>rolling := True\<rparr>) ioNoVoice
          (snd (onEnd handler3 round2 ''time'' worldR2))) = Inr Returned \<and>
   rooms (snd (startNewRound handler3 (guild1\<lparr>rolling := True\<rparr>) ioNoVoice
          (snd (onEnd handler3 round2 ''time'' worldR2)))) = rooms worldR2 \<and>
   io_voiceChannelID ioReady = Some ''vc1'' \<and> io_stream ioReady = Some ''stream1'' \<and>
   fst (startNewRound handler3 (guild1\<lparr>rolling := True\<rparr>) ioReady
          (snd (onEnd handler3 round2 ''time'' worldR2))) =
     Inr (RoundActive \<lparr>rd_room = room2\<lparr>currentRound := 3, answerers := []\<rparr>,
            rd_guild = guild1\<lparr>rolling := True\<rparr>, rd_theme = theme1,
            rd_voiceChannelID = ''vc1'', rd_isSingleplayer = False\<rparr>) \<and>
   rooms (snd (startNewRound handler3 (guild1\<lparr>rolling := True\<rparr>) ioReady
          (snd (onEnd handler3 round2 ''time'' worldR2)))) ''g1'' =
     Some (room2\<lparr>currentRound := 3, answerers := []\<rparr>)"
proof -
  have ne: "''time'' \<noteq> ''forceFinished''"
    by simp
  have h: "rounds (options handler3) = 3" "guildID handler3 = ''g1''"
    "mode (options handler3) = ''normal''"
    "handleLevelByMode handler3 = (\<lambda>u m w. Some \<lparr>stats_xp = 10, stats_level = 1\<rparr>)"
    by (simp_all add: handler3_def handler10_def)
  have g: "guild_id guild1 = ''g1''" "guild1\<lparr>rolling := True, rolling := False\<rparr> = guild1"
    by (simp_all add: guild1_def)
  have r3: "currentRound (rd_room round3) = 3" "answerers (rd_room round3) = [''u2'']"
    "room_id (rd_room round3) = ''g1''" "rd_guild round3 = guild1\<lparr>rolling := True\<rparr>"
    "rd_isSingleplayer round3 = False" "rd_theme round3 = theme1"
    "rd_voiceChannelID round3 = ''vc1''"
    by (simp_all add: round3_def room3_def)
  have r3a: "currentRound (rd_room round3a) = 3" "answerers (rd_room round3a) = [''u1'']"
    "room_id (rd_room round3a) = ''g1''" "rd_guild round3a = guild1\<lparr>rolling := True\<rparr>"
    "rd_isSingleplayer round3a = False" "rd_theme round3a = theme1"
    "rd_voiceChannelID round3a = ''vc1''"
    by (simp_all add: round3a_def round3_def room3a_def room3_def)
  have r2: "currentRound (rd_room round2) = 2" "answerers (rd_room round2) = [''u2'']"
    "rd_guild round2 = guild1\<lparr>rolling := True\<rparr>" "rd_theme round2 = theme1"
    "currentRound room2 = 2"
    by (simp_all add: round2_def round3_def room2_def room3_def)
  have w3: "users worldR3 = [''u1'' \<mapsto> user1, ''u2'' \<mapsto> user2]"
    "leaderboards worldR3 = [entry4, entry7]" "trace worldR3 = []"
    by (simp_all add: worldR3_def world47_def world0_def)
  have w3a: "users worldR3a = [''u1'' \<mapsto> user1, ''u2'' \<mapsto> user2]"
    "leaderboards worldR3a = [entry4, entry7]" "trace worldR3a = []"
    by (simp_all add: worldR3a_def worldR3_def world47_def world0_def)
  have w2: "users worldR2 = [''u1'' \<mapsto> user1, ''u2'' \<mapsto> user2]"
    "leaderboards worldR2 = [entry4, entry7]" "trace worldR2 = []"
    "rooms worldR2 = [''g1'' \<mapsto> room2]"
    by (simp_all add: worldR2_def worldR3_def world47_def world0_def)
  have e: "lb_id entry4 = ''u1''" "lb_id entry7 = ''u2''" "guildId entry4 = ''g1''"
    "guildId entry7 = ''g1''" "score entry4 = 4" "score entry7 = 7"
    by (simp_all add: entry4_def entry7_def)
  have u: "level user1 = 1" "level user2 = 1" "user_id user1 = ''u1''" "user_id user2 = ''u2''"
    by (simp_all add: user1_def user2_def)
  have j: "js_add 4 1 = 5" "js_add 7 1 = 8"
    by (simp_all add: js_add_exact)
  have l3: "RoomLeaderboard_find ''g1'' (reveal round3 worldR3) = [entry4, entry7]"
    "RoomLeaderboard_find ''g1'' (reveal round3a worldR3a) = [entry4, entry7]"
    by (simp_all add: RoomLeaderboard_find_def reveal_eq w3 w3a e)
  have a3: "leaderboards (answered handler3 round3 (reveal round3 worldR3)) =
      [entry4, entry7\<lparr>score := 8\<rparr>]"
    "trace (answered handler3 round3 (reveal round3 worldR3)) =
      [CreateMessage TheAnswerIs, CreateMessage (AnswerEmbed theme1),
       CreateMessage (Winners [''u2''])]"
    by (simp_all add: answered_def r3 reveal_eq w3 e j h u RoomLeaderboard_findById_def
        bumpScore_found_def RoomLeaderboard_save_def handleLevel_found_def Let_def User_save_def)
  have a3a: "leaderboards (answered handler3 round3a (reveal round3a worldR3a)) =
      [entry4\<lparr>score := 5\<rparr>, entry7]"
    "trace (answered handler3 round3a (reveal round3a worldR3a)) =
      [CreateMessage TheAnswerIs, CreateMessage (AnswerEmbed theme1),
       CreateMessage (Winners [''u1''])]"
    "users (answered handler3 round3a (reveal round3a worldR3a)) ''u2'' = Some user2"
    by (simp_all add: answered_def r3a reveal_eq w3a e j h u RoomLeaderboard_findById_def
        bumpScore_found_def RoomLeaderboard_save_def handleLevel_found_def Let_def User_save_def)
  have f3: "finalWinner handler3 round3 worldR3 = JSNull"
    by (simp add: finalWinner_def r3 h l3 getMatchWinner_found_def array_truthy_def Let_def
        RoomLeaderboard_findOne_def a3 e)
  have f3a: "finalWinner handler3 round3a worldR3a = JSDoc entry7"
    by (simp add: finalWinner_def r3a h l3 getMatchWinner_found_def array_truthy_def Let_def
        RoomLeaderboard_findOne_def a3a e)
  have t: "\<And>h r g x. trace (clearData h r g x) = trace x"
    by (simp add: clearData_eq)
  note TA = onEnd_natural_timeout [OF ne, where h = handler3 and rd = round3 and w = worldR3
      and matchWinner = entry7 and winnerUser = user2
      and newStats = "\<lparr>stats_xp = 10, stats_level = 1\<rparr>" and io = ioNoVoice
      and voiceChannelID = "''vc1''" and voiceChannel = duoChannel and isSingleplayer = False
      and room = room2 and ?w1.0 = worldR2 and theme = theme1 and stream = "''stream1''"]
  from TA h r3 f3 have EA: "onEnd handler3 round3 ''time'' worldR3 =
      (Inr Done,
       emit (CreateMessage RoundEnded)
         (clearData handler3 (rd_room round3) (guild1\<lparr>rolling := True\<rparr>)
           (emit (LeaveVoiceChannel (Some ''vc1''))
             (answered handler3 round3 (reveal round3 worldR3)))))"
    by simp
  then have dA: "fst (onEnd handler3 round3 ''time'' worldR3) = Inr Done"
    by simp
  from TA h r3 dA g have cA: "rooms (snd (onEnd handler3 round3 ''time'' worldR3)) ''g1'' = None \<and>
      RoomLeaderboard_find ''g1'' (snd (onEnd handler3 round3 ''time'' worldR3)) = [] \<and>
      guilds (snd (onEnd handler3 round3 ''time'' worldR3)) ''g1'' = Some guild1"
    by simp
  have tA: "trace (snd (onEnd handler3 round3 ''time'' worldR3)) =
      [CreateMessage TheAnswerIs, CreateMessage (AnswerEmbed theme1),
       CreateMessage (Winners [''u2'']), LeaveVoiceChannel (Some ''vc1''),
       CreateMessage RoundEnded]"
    by (simp add: EA emit_def t a3)
  note TB = onEnd_natural_timeout [OF ne, where h = handler3 and rd = round3a and w = worldR3a
      and matchWinner = entry7 and winnerUser = user2
      and newStats = "\<lparr>stats_xp = 10, stats_level = 1\<rparr>" and io = ioNoVoice
      and voiceChannelID = "''vc1''" and voiceChannel = duoChannel and isSingleplayer = False
      and room = room2 and ?w1.0 = worldR2 and theme = theme1 and stream = "''stream1''"]
  from TB h r3a f3a a3a(3) e u have EB: "onEnd handler3 round3a ''time'' worldR3a =
      (Inr Done,
       emit (CreateMessage RoundEnded)
         (clearData handler3 (rd_room round3a) (guild1\<lparr>rolling := True\<rparr>)
           (emit (LeaveVoiceChannel (Some ''vc1''))
             (emit (CreateMessage (Congrats ''u2'' 10)) (answered handler3 round3a (reveal round3a worldR3a))))))"
    by simp
  then have dB: "fst (onEnd handler3 round3a ''time'' worldR3a) = Inr Done"
    by simp
  from TB h r3a dB g have cB: "rooms (snd (onEnd handler3 round3a ''time'' worldR3a)) ''g1'' = None \<and>
      RoomLeaderboard_find ''g1'' (snd (onEnd handler3 round3a ''time'' worldR3a)) = [] \<and>
      guilds (snd (onEnd handler3 round3a ''time'' worldR3a)) ''g1'' = Some guild1"
    by simp
  have tB: "trace (snd (onEnd handler3 round3a ''time'' worldR3a)) =
      [CreateMessage TheAnswerIs, CreateMessage (AnswerEmbed theme1),
       CreateMessage (Winners [''u1'']), CreateMessage (Congrats ''u2'' 10), LeaveVoiceChannel (Some ''vc1''),
       CreateMessage RoundEnded]"
    by (simp add: EB emit_def t a3a)
  have io: "io_voiceChannelID ioNoVoice = None" "io_voiceChannelID ioReady = Some ''vc1''"
    "io_voiceChannel ioReady = Some duoChannel" "io_theme ioReady = Inr theme1"
    "io_stream ioReady = Some ''stream1''" "io_animeData ioReady = Inr ()"
    by (simp_all add: ioNoVoice_def ioReady_def ioStreamFails_def)
  have sp: "isSinglePlayer handler3 duoChannel = Inr False"
    by (simp add: isSinglePlayer_def handler3_def handler10_def duoChannel_def)
  have rm: "rooms (answered handler3 round2 (reveal round2 worldR2)) ''g1'' = Some room2"
    by (simp add: answered_frame reveal_eq w2)
  have hR: "handleRoom handler3 = storingRoomHandler ''g1'' ''c1'' ''u1''"
    by (simp add: handler3_def handler10_def)
  have hr: "handleRoom handler3 False (answered handler3 round2 (reveal round2 worldR2)) =
      (Inr (room2\<lparr>currentRound := 3, answerers := []\<rparr>),
       Room_save (room2\<lparr>currentRound := 3, answerers := []\<rparr>)
         (answered handler3 round2 (reveal round2 worldR2)))"
    by (simp add: hR storingRoomHandler_existing [OF rm] r2)
  have rs: "room_id room2 = ''g1''"
    by (simp add: room2_def room3_def)
  from onEnd_natural_timeout [OF ne, where h = handler3 and rd = round2 and w = worldR2
      and matchWinner = entry7 and winnerUser = user2
      and newStats = "\<lparr>stats_xp = 10, stats_level = 1\<rparr>" and io = ioNoVoice
      and voiceChannelID = "''vc1''" and voiceChannel = duoChannel and isSingleplayer = False
      and room = room2 and ?w1.0 = worldR2 and theme = theme1 and stream = "''stream1''"]
    h r2 io(1)
  have C: "fst (onEnd handler3 round2 ''time'' worldR2) =
        Inr (StartNewRound (guild1\<lparr>rolling := True\<rparr>)) \<and>
      rooms (snd (onEnd handler3 round2 ''time'' worldR2)) = rooms worldR2 \<and>
      guilds (snd (onEnd handler3 round2 ''time'' worldR2)) = guilds worldR2 \<and>
      fst (startNewRound handler3 (guild1\<lparr>rolling := True\<rparr>) ioNoVoice
             (snd (onEnd handler3 round2 ''time'' worldR2))) = Inr Returned \<and>
      rooms (snd (startNewRound handler3 (guild1\<lparr>rolling := True\<rparr>) ioNoVoice
             (snd (onEnd handler3 round2 ''time'' worldR2)))) = rooms worldR2"
    by simp
  from onEnd_natural_timeout [OF ne, where h = handler3 and rd = round2 and w = worldR2
      and matchWinner = entry7 and winnerUser = user2
      and newStats = "\<lparr>stats_xp = 10, stats_level = 1\<rparr>" and io = ioReady
      and voiceChannelID = "''vc1''" and voiceChannel = duoChannel and isSingleplayer = False
      and room = "room2\<lparr>currentRound := 3, answerers := []\<rparr>"
      and ?w1.0 = "Room_save (room2\<lparr>currentRound := 3, answerers := []\<rparr>)
         (answered handler3 round2 (reveal round2 worldR2))"
      and theme = theme1 and stream = "''stream1''"]
    h r2 io sp hr
  have D: "fst (startNewRound handler3 (guild1\<lparr>rolling := True\<rparr>) ioReady
             (snd (onEnd handler3 round2 ''time'' worldR2))) =
        Inr (RoundActive \<lparr>rd_room = room2\<lparr>currentRound := 3, answerers := []\<rparr>,
               rd_guild = guild1\<lparr>rolling := True\<rparr>, rd_theme = theme1,
               rd_voiceChannelID = ''vc1'', rd_isSingleplayer = False\<rparr>) \<and>
      rooms (snd (startNewRound handler3 (guild1\<lparr>rolling := True\<rparr>) ioReady
             (snd (onEnd handler3 round2 ''time'' worldR2)))) ''g1'' =
        Some (room2\<lparr>currentRound := 3, answerers := []\<rparr>)"
    by (simp add: Room_save_def rs)
  from ne h(1) r3(1) r3a(1) r2(1) f3 f3a io(1,2,5) dA cA tA dB cB tB C D show ?thesis
    by simp
qed

end
